theory Spec2Isabelle
  imports Complex_Main
begin

section \<open>Time\<close>

text \<open>
  A point in time is the number of milliseconds since the epoch, as JavaScript's
  \<^verbatim>\<open>Date\<close> holds it.  The source stores times as ISO strings and reads them back with
  \<^verbatim>\<open>new Date(...)\<close>; the round trip is exact at millisecond granularity, so the model
  keeps the number.  Every reading of the clock (\<^verbatim>\<open>new Date()\<close>, \<^verbatim>\<open>Date.now()\<close>) made by
  one operation is the parameter \<open>now\<close> of that operation.
\<close>

type_synonym time = int

definition msPerHour :: int where
  "msPerHour = 1000 * 60 * 60"

definition msPerDay :: int where
  "msPerDay = 24 * 60 * 60 * 1000"

section \<open>Production pipeline: priority\<close>

text \<open>
  The strategy fields read by the production agent.  \<open>estimatedViews\<close> is the integer
  that \<^verbatim>\<open>predictViews\<close> returns (\<^verbatim>\<open>Math.floor\<close>); \<open>competitorAnalysis\<close> is \<open>None\<close> when
  the field is absent; \<open>bestPublishTime\<close> is \<open>None\<close> when the field is absent, in which
  case \<^verbatim>\<open>new Date(undefined)\<close> is an invalid date and every comparison with the
  resulting \<^verbatim>\<open>NaN\<close> is false.
\<close>

record strategy =
  estimatedViews :: int
  competitorAnalysis :: "string list option"
  bestPublishTime :: "time option"

text \<open>
  \<^verbatim>\<open>(new Date(strategy.bestPublishTime) - new Date()) / (1000 * 60 * 60)\<close>; \<open>None\<close> is
  \<^verbatim>\<open>NaN\<close>.  The quotient is kept exact: the thresholds 24 and 48 are far from any
  quotient of a millisecond count that is not equal to them, so rounding to a double
  does not change the comparisons.
\<close>

definition hoursUntilPublish :: "time \<Rightarrow> strategy \<Rightarrow> rat option" where
  "hoursUntilPublish now s =
     (case bestPublishTime s of
        None \<Rightarrow> None
      | Some t \<Rightarrow> Some (of_int (t - now) / of_int msPerHour))"

definition calculatePriority :: "time \<Rightarrow> strategy \<Rightarrow> int" where
  "calculatePriority now s =
     (let priority = 50;
          priority =
            (if estimatedViews s > 100000 then priority + 30
             else if estimatedViews s > 50000 then priority + 20
             else if estimatedViews s > 10000 then priority + 10
             else priority);
          priority =
            (case competitorAnalysis s of
               Some (c # cs) \<Rightarrow> priority + 10
             | _ \<Rightarrow> priority);
          priority =
            (case hoursUntilPublish now s of
               None \<Rightarrow> priority
             | Some h \<Rightarrow>
                 if h < 24 then priority + 20
                 else if h < 48 then priority + 10
                 else priority)
      in min 100 priority)"

text \<open>The bonuses as the specification words them, for comparison with the code.\<close>

definition viewsBonus :: "int \<Rightarrow> int" where
  "viewsBonus v = (if 100000 < v then 30 else if 50000 < v then 20 else if 10000 < v then 10 else 0)"

definition competitorBonus :: "string list option \<Rightarrow> int" where
  "competitorBonus c = (if c = None \<or> c = Some [] then 0 else 10)"

definition timeBonus :: "time \<Rightarrow> time option \<Rightarrow> int" where
  "timeBonus now target =
     (case target of
        None \<Rightarrow> 0
      | Some t \<Rightarrow>
          if t - now < 24 * msPerHour then 20
          else if t - now < 48 * msPerHour then 10
          else 0)"

section \<open>Production pipeline: stages\<close>

text \<open>
  The script of a content brief, with the properties the pipeline's control flow reads.
  \<open>mainContent\<close> is the array \<^verbatim>\<open>script.mainContent.sections\<close>, \<open>None\<close> when
  \<^verbatim>\<open>mainContent\<close> or its \<^verbatim>\<open>sections\<close> is absent.  The texts that \<^verbatim>\<open>formatScriptForTTS\<close>
  and \<^verbatim>\<open>createSRTCaptions\<close> build are written to files and read by nothing else; they are
  not modelled.
\<close>

record script_section =
  section_title :: string

record script =
  script_title :: string
  duration :: int
  mainContent :: "script_section list option"

record thumbnail_input =
  thumbnail_path :: "string option"

record content_data =
  cd_strategy :: strategy
  cd_script :: script
  cd_thumbnail :: thumbnail_input

text \<open>
  A descriptor of a stage artifact: one record for all the object literals the stages
  build, with the properties a later stage reads or the specification names.  A property the
  literal does not have is \<open>None\<close>, \<open>[]\<close> or \<open>False\<close>; in particular \<open>simulated\<close> is
  \<open>True\<close> exactly when the literal has \<^verbatim>\<open>simulated: true\<close>, and \<open>generatedWith\<close> is
  \<open>Some ''AI''\<close> exactly when it has \<^verbatim>\<open>generatedWith: 'AI'\<close>.  Purely descriptive
  properties (dimensions, file size, format, resolution) are left out.  Paths are written
  relative to the source directory.
\<close>

record artifact =
  path :: "string option"
  visualAssets :: "string list"
  generatedWith :: "string option"
  autoGenerated :: bool
  simulated :: bool

record assets =
  asset_script :: artifact
  asset_thumbnail :: artifact
  asset_audio :: "artifact option"
  asset_video :: "artifact option"
  asset_captions :: "artifact option"
  asset_finalVideo :: "artifact option"

record timeline =
  created :: "time option"
  scriptReady :: "time option"
  thumbnailReady :: "time option"
  audioGenerated :: "time option"
  videoGenerated :: "time option"
  captionsGenerated :: "time option"
  readyForUpload :: "time option"

text \<open>
  The production item \<^verbatim>\<open>productionData\<close>.  \<open>prod_id\<close>, \<open>prod_strategy\<close>, \<open>prod_script\<close>,
  \<open>prod_status\<close> and \<open>prod_priority\<close> are the properties \<^verbatim>\<open>id\<close>, \<^verbatim>\<open>strategy\<close>, \<^verbatim>\<open>script\<close>,
  \<^verbatim>\<open>status\<close> and \<^verbatim>\<open>priority\<close>.  The status is the string the source stores.  The
  properties \<^verbatim>\<open>thumbnail\<close>, \<^verbatim>\<open>seo\<close> and \<^verbatim>\<open>createdAt\<close>, which the pipeline stores and never
  reads again, are left out.
\<close>

record production_item =
  prod_id :: string
  prod_strategy :: strategy
  prod_script :: script
  prod_status :: string
  prod_assets :: assets
  prod_timeline :: timeline
  scheduledPublishTime :: time
  prod_priority :: int
  estimatedDuration :: int

text \<open>
  The outcomes of the calls the pipeline makes to the outside world during one run of
  \<^verbatim>\<open>processContent\<close>.  An outcome of type \<open>string option\<close> is the message of the error the
  call throws, \<open>None\<close> when it returns; an outcome of a sum type is the error message or
  the value returned.
  \<^item> \<open>newProductionId\<close>: \<^verbatim>\<open>generateProductionId()\<close>; \<open>stamp\<close>: \<^verbatim>\<open>Date.now()\<close> as it appears
    in file names; \<open>tomorrow2pm\<close>: the default of \<^verbatim>\<open>calculatePublishTime\<close>, which depends
    on the local time zone.
  \<^item> \<open>fs_writeScript\<close>: the two \<^verbatim>\<open>fs.writeFile\<close> of \<^verbatim>\<open>processScript\<close>.
  \<^item> \<open>generateThumbnail\<close>: \<^verbatim>\<open>aiVideoGenerator.generateThumbnail\<close>.
  \<^item> \<open>thumbnailExists\<close>: whether \<^verbatim>\<open>fs.access(thumbnail.path)\<close> succeeds;
    \<open>fs_copyThumbnail\<close> and \<open>fs_writePlaceholder\<close>: the file operations of the two
    branches of the fallback of \<^verbatim>\<open>processThumbnail\<close>.
  \<^item> \<open>db_saveProductionData\<close>, \<open>db_updateProductionData\<close>: the database statements.
  \<^item> \<open>generateVisualAssets\<close>: \<^verbatim>\<open>aiVideoGenerator.generateVisualAssets\<close> for a prompt.
  \<^item> \<open>fs_readTTS\<close>, \<open>generateTTSAudio\<close>: the read of the TTS script and the TTS call.
  \<^item> \<open>fs_writeAudioInfo\<close>: the \<^verbatim>\<open>fs.writeFile\<close> of \<^verbatim>\<open>simulateAudioGeneration\<close>.
  \<^item> \<open>writeCaptions\<close>: \<^verbatim>\<open>createSRTCaptions\<close>, \<^verbatim>\<open>fs.mkdir\<close> and \<^verbatim>\<open>fs.writeFile\<close> of
    \<^verbatim>\<open>generateCaptions\<close>.
  \<^item> \<open>generateVideo\<close>, \<open>fs_statFinalVideo\<close>: the calls of \<^verbatim>\<open>assembleVideo\<close>;
    \<open>fs_writeAssembly\<close>: the \<^verbatim>\<open>fs.writeFile\<close> of \<^verbatim>\<open>simulateVideoAssembly\<close>.
\<close>

record production_env =
  newProductionId :: string
  stamp :: string
  tomorrow2pm :: time
  fs_writeScript :: "string option"
  generateThumbnail :: "string + artifact"
  thumbnailExists :: bool
  fs_copyThumbnail :: "string option"
  fs_writePlaceholder :: "string option"
  db_saveProductionData :: "string option"
  generateVisualAssets :: "string \<Rightarrow> string + string list"
  fs_readTTS :: "string option"
  generateTTSAudio :: "string option"
  fs_writeAudioInfo :: "string option"
  writeCaptions :: "string option"
  generateVideo :: "string option"
  fs_statFinalVideo :: "string option"
  fs_writeAssembly :: "string option"
  db_updateProductionData :: "string option"

definition descriptor :: artifact where
  "descriptor =
     \<lparr>path = None, visualAssets = [], generatedWith = None, autoGenerated = False,
      simulated = False\<rparr>"

text \<open>
  \<^verbatim>\<open>processScript\<close>: the files are written, then the descriptor is built; building it
  reads \<^verbatim>\<open>script.mainContent.sections.length\<close> without a guard.
\<close>

definition processScript :: "production_env \<Rightarrow> script \<Rightarrow> string + artifact" where
  "processScript w scr =
     (let scriptPath = ''data/scripts/'' @ stamp w @ ''_script.json''
      in case fs_writeScript w of
           Some err \<Rightarrow> Inl err
         | None \<Rightarrow>
             (case mainContent scr of
                None \<Rightarrow> Inl ''TypeError: Cannot read properties of undefined''
              | Some sections \<Rightarrow> Inr (descriptor\<lparr>path := Some scriptPath\<rparr>)))"

text \<open>
  \<^verbatim>\<open>processThumbnail\<close>.  The descriptor returned after a successful generator call copies
  \<^verbatim>\<open>path\<close>, \<^verbatim>\<open>dimensions\<close> and \<^verbatim>\<open>fileSize\<close> of the generator's result and nothing else.  The
  fallback in the \<^verbatim>\<open>catch\<close> block copies the original thumbnail or writes a placeholder
  file, and returns a descriptor without \<^verbatim>\<open>generatedWith\<close> and without \<^verbatim>\<open>simulated\<close>.
\<close>

definition processThumbnail :: "production_env \<Rightarrow> thumbnail_input \<Rightarrow> string + artifact" where
  "processThumbnail w thumbnail =
     (case generateThumbnail w of
        Inr aiThumbnail \<Rightarrow>
          Inr (descriptor\<lparr>path := path aiThumbnail, generatedWith := Some ''AI''\<rparr>)
      | Inl error \<Rightarrow>
          (let productionThumbnailPath = ''data/assets/thumbnail_'' @ stamp w @ ''.jpg'';
               written =
                 (if thumbnail_path thumbnail \<noteq> None \<and> thumbnail_path thumbnail \<noteq> Some []
                       \<and> thumbnailExists w
                  then fs_copyThumbnail w
                  else fs_writePlaceholder w)
           in case written of
                Some err \<Rightarrow> Inl err
              | None \<Rightarrow> Inr (descriptor\<lparr>path := Some productionThumbnailPath\<rparr>)))"

definition calculatePublishTime :: "production_env \<Rightarrow> strategy \<Rightarrow> time" where
  "calculatePublishTime w s =
     (case bestPublishTime s of
        Some t \<Rightarrow> t
      | None \<Rightarrow> tomorrow2pm w)"

definition createVisualPromptsFromScript :: "script \<Rightarrow> string list" where
  "createVisualPromptsFromScript scr =
     (let prompts = [script_title scr @ '', ethereal storytelling, mystical background''];
          prompts = prompts @
            (case mainContent scr of
               None \<Rightarrow> []
             | Some sections \<Rightarrow>
                 map (\<lambda>sec. section_title sec @ '', ethereal dreamscape, creative visualization'')
                   (filter (\<lambda>sec. section_title sec \<noteq> []) sections));
          prompts = prompts @
            replicate (3 - length prompts)
              ''ethereal dreamscape, mystical storytelling, creative visualization''
      in take 5 prompts)"

text \<open>The loop of \<^verbatim>\<open>generateVideoContent\<close> over the prompts.\<close>

fun collectVisualAssets ::
  "(string \<Rightarrow> string + string list) \<Rightarrow> string list \<Rightarrow> string list \<Rightarrow> string + string list" where
  "collectVisualAssets gen [] acc = Inr acc"
| "collectVisualAssets gen (prompt # prompts) acc =
     (case gen prompt of
        Inl err \<Rightarrow> Inl err
      | Inr new \<Rightarrow> collectVisualAssets gen prompts (acc @ new))"

text \<open>
  \<^verbatim>\<open>generateVideoContent\<close>.  The fallback \<^verbatim>\<open>createVideoElements\<close> builds a list of slide
  descriptions and returns it; it changes nothing in \<^verbatim>\<open>productionData\<close>, and
  \<^verbatim>\<open>processContent\<close> ignores the value returned.  So after a failure the item is unchanged.
\<close>

definition generateVideoContent :: "production_env \<Rightarrow> time \<Rightarrow> production_item \<Rightarrow> production_item" where
  "generateVideoContent w now productionData =
     (case collectVisualAssets (generateVisualAssets w)
             (createVisualPromptsFromScript (prod_script productionData)) [] of
        Inr assetPaths \<Rightarrow>
          productionData
            \<lparr>prod_assets := (prod_assets productionData)
               \<lparr>asset_video := Some (descriptor\<lparr>visualAssets := assetPaths, generatedWith := Some ''AI''\<rparr>)\<rparr>,
             prod_timeline := (prod_timeline productionData)\<lparr>videoGenerated := Some now\<rparr>\<rparr>
      | Inl error \<Rightarrow> productionData)"

definition simulateAudioGeneration :: "production_env \<Rightarrow> production_item \<Rightarrow> string + production_item" where
  "simulateAudioGeneration w productionData =
     (let audioPath = ''data/audio/'' @ prod_id productionData @ ''_narration.mp3''
      in case fs_writeAudioInfo w of
           Some err \<Rightarrow> Inl err
         | None \<Rightarrow>
             Inr (productionData
               \<lparr>prod_assets := (prod_assets productionData)
                  \<lparr>asset_audio := Some (descriptor\<lparr>path := Some (audioPath @ ''.info''), simulated := True\<rparr>)\<rparr>\<rparr>))"

definition generateAudioNarration ::
  "production_env \<Rightarrow> time \<Rightarrow> production_item \<Rightarrow> string + production_item" where
  "generateAudioNarration w now productionData =
     (let audioPath = ''data/audio/'' @ prod_id productionData @ ''_narration.mp3'';
          attempt = (case fs_readTTS w of
                       Some err \<Rightarrow> Some err
                     | None \<Rightarrow> generateTTSAudio w)
      in case attempt of
           None \<Rightarrow>
             Inr (productionData
               \<lparr>prod_assets := (prod_assets productionData)
                  \<lparr>asset_audio := Some (descriptor\<lparr>path := Some audioPath, generatedWith := Some ''AI''\<rparr>)\<rparr>,
                prod_timeline := (prod_timeline productionData)\<lparr>audioGenerated := Some now\<rparr>\<rparr>)
         | Some error \<Rightarrow> simulateAudioGeneration w productionData)"

text \<open>\<^verbatim>\<open>generateCaptions\<close> has no \<^verbatim>\<open>try\<close>: an error of its calls is thrown to the caller.\<close>

definition generateCaptions ::
  "production_env \<Rightarrow> time \<Rightarrow> production_item \<Rightarrow> string + production_item" where
  "generateCaptions w now productionData =
     (let captionsPath = ''data/captions/'' @ prod_id productionData @ ''_captions.srt''
      in case writeCaptions w of
           Some err \<Rightarrow> Inl err
         | None \<Rightarrow>
             Inr (productionData
               \<lparr>prod_assets := (prod_assets productionData)
                  \<lparr>asset_captions := Some (descriptor\<lparr>path := Some captionsPath, autoGenerated := True\<rparr>)\<rparr>,
                prod_timeline := (prod_timeline productionData)\<lparr>captionsGenerated := Some now\<rparr>\<rparr>))"

definition simulateVideoAssembly :: "production_env \<Rightarrow> production_item \<Rightarrow> string + production_item" where
  "simulateVideoAssembly w productionData =
     (let finalVideoPath = ''data/videos/'' @ prod_id productionData @ ''_final.mp4''
      in case fs_writeAssembly w of
           Some err \<Rightarrow> Inl err
         | None \<Rightarrow>
             Inr (productionData
               \<lparr>prod_assets := (prod_assets productionData)
                  \<lparr>asset_finalVideo :=
                     Some (descriptor\<lparr>path := Some (finalVideoPath @ ''.assembly.json''), simulated := True\<rparr>)\<rparr>\<rparr>))"

text \<open>
  \<^verbatim>\<open>assembleVideo\<close>.  The arguments of \<^verbatim>\<open>generateVideo\<close> read
  \<^verbatim>\<open>productionData.assets.video.visualAssets\<close> and \<^verbatim>\<open>productionData.assets.audio.path\<close>
  inside the \<^verbatim>\<open>try\<close>: when either asset is \<^verbatim>\<open>null\<close> the read throws a TypeError, which
  the \<^verbatim>\<open>catch\<close> turns into the simulated assembly.
\<close>

definition assembleVideo :: "production_env \<Rightarrow> production_item \<Rightarrow> string + production_item" where
  "assembleVideo w productionData =
     (let finalVideoPath = ''data/videos/'' @ prod_id productionData @ ''_final.mp4'';
          attempt =
            (case asset_video (prod_assets productionData) of
               None \<Rightarrow> Some ''TypeError: Cannot read properties of null''
             | Some video \<Rightarrow>
                 (case asset_audio (prod_assets productionData) of
                    None \<Rightarrow> Some ''TypeError: Cannot read properties of null''
                  | Some audio \<Rightarrow>
                      (case generateVideo w of
                         Some err \<Rightarrow> Some err
                       | None \<Rightarrow> fs_statFinalVideo w)))
      in case attempt of
           None \<Rightarrow>
             Inr (productionData
               \<lparr>prod_assets := (prod_assets productionData)
                  \<lparr>asset_finalVideo :=
                     Some (descriptor\<lparr>path := Some finalVideoPath, generatedWith := Some ''AI''\<rparr>)\<rparr>\<rparr>)
         | Some error \<Rightarrow> simulateVideoAssembly w productionData)"

text \<open>
  \<^verbatim>\<open>processContent\<close>.  The outer \<^verbatim>\<open>try\<close>/\<^verbatim>\<open>catch\<close> logs and rethrows, so an error of a
  stage is the result.  The array \<^verbatim>\<open>this.pipeline\<close> and the database row, which mirror
  \<^verbatim>\<open>productionData\<close> and are read by none of the stages, are not part of the model.
\<close>

definition processContent :: "production_env \<Rightarrow> time \<Rightarrow> content_data \<Rightarrow> string + production_item" where
  "processContent w now contentData =
     (case processScript w (cd_script contentData) of
        Inl err \<Rightarrow> Inl err
      | Inr scriptAsset \<Rightarrow>
     (case processThumbnail w (cd_thumbnail contentData) of
        Inl err \<Rightarrow> Inl err
      | Inr thumbnailAsset \<Rightarrow>
     (let productionData =
            \<lparr>prod_id = newProductionId w,
             prod_strategy = cd_strategy contentData,
             prod_script = cd_script contentData,
             prod_status = ''processing'',
             prod_assets =
               \<lparr>asset_script = scriptAsset, asset_thumbnail = thumbnailAsset,
                asset_audio = None, asset_video = None, asset_captions = None,
                asset_finalVideo = None\<rparr>,
             prod_timeline =
               \<lparr>created = Some now, scriptReady = Some now, thumbnailReady = Some now,
                audioGenerated = None, videoGenerated = None, captionsGenerated = None,
                readyForUpload = None\<rparr>,
             scheduledPublishTime = calculatePublishTime w (cd_strategy contentData),
             prod_priority = calculatePriority now (cd_strategy contentData),
             estimatedDuration = duration (cd_script contentData)\<rparr>
      in case db_saveProductionData w of
           Some err \<Rightarrow> Inl err
         | None \<Rightarrow>
     (case generateAudioNarration w now (generateVideoContent w now productionData) of
        Inl err \<Rightarrow> Inl err
      | Inr productionData \<Rightarrow>
     (case generateCaptions w now productionData of
        Inl err \<Rightarrow> Inl err
      | Inr productionData \<Rightarrow>
     (case assembleVideo w productionData of
        Inl err \<Rightarrow> Inl err
      | Inr productionData \<Rightarrow>
     (let productionData = productionData
            \<lparr>prod_status := ''ready'',
             prod_timeline := (prod_timeline productionData)\<lparr>readyForUpload := Some now\<rparr>\<rparr>
      in case db_updateProductionData w of
           Some err \<Rightarrow> Inl err
         | None \<Rightarrow> Inr productionData)))))))"

text \<open>\<^verbatim>\<open>calculateProgress\<close>: the percentage of the six milestones that are set.\<close>

definition milestones :: "timeline \<Rightarrow> time option list" where
  "milestones t =
     [scriptReady t, thumbnailReady t, audioGenerated t, videoGenerated t,
      captionsGenerated t, readyForUpload t]"

section \<open>Publish queue\<close>

text \<open>
  The status of a publish entry is one of the four strings the publishing agent writes:
  \<^verbatim>\<open>'scheduled'\<close>, \<^verbatim>\<open>'paused'\<close>, \<^verbatim>\<open>'published'\<close>, \<^verbatim>\<open>'failed'\<close>.
\<close>

datatype entry_status = Scheduled | Paused | Published | Failed

text \<open>
  A schedule entry object.  \<open>entry_id\<close> is the property \<^verbatim>\<open>id\<close>, absent (\<open>None\<close>) until
  \<^verbatim>\<open>db.saveScheduleEntry\<close> assigns it; \<open>publishedAt\<close>, \<open>youtubeId\<close>, \<open>youtubeUrl\<close> and
  \<open>error\<close> are absent until a publish attempt sets them.  The \<^verbatim>\<open>metadata\<close> property is
  read only by \<^verbatim>\<open>uploadToYouTube\<close>, whose outcome is a parameter below, and is left out.
\<close>

record schedule_entry =
  entry_id :: "string option"
  productionId :: string
  title :: string
  publishTime :: time
  status :: entry_status
  priority :: int
  createdAt :: time
  publishedAt :: "time option"
  youtubeId :: "string option"
  youtubeUrl :: "string option"
  error :: "string option"

text \<open>A row of the table \<^verbatim>\<open>publish_schedule\<close>, with the columns the agent writes.\<close>

record db_row =
  row_id :: string
  row_production_id :: string
  row_title :: string
  row_publish_time :: time
  row_status :: entry_status
  row_priority :: int
  row_youtube_id :: "string option"
  row_youtube_url :: "string option"
  row_published_at :: "time option"
  row_error_message :: "string option"

text \<open>
  The agent's state.  Entries are JavaScript objects shared between the queue array, the
  array \<^verbatim>\<open>readyToPublish\<close> of a drain and the local variables of the methods, and they
  are mutated in place; so the model keeps them in a store \<open>heap\<close> addressed by
  references, and \<open>publishQueue\<close> is the array of references.  \<open>publish_schedule\<close> is the
  database table.  \<open>uploadLog\<close> records, in order, the entries handed to
  \<^verbatim>\<open>uploadToYouTube\<close>: the sequence of upload calls the external service sees.
\<close>

record agent_state =
  heap :: "nat \<Rightarrow> schedule_entry"
  nextRef :: nat
  publishQueue :: "nat list"
  publish_schedule :: "db_row list"
  uploadLog :: "nat list"

text \<open>
  The outside world.  \<open>uploadToYouTube\<close> is the outcome of the upload of an entry: the
  message of the error thrown, or the id of the uploaded video.  \<open>executeQuery\<close> is the
  outcome of the database statement that writes an entry: the message of the rejection, or
  \<open>None\<close> when the statement succeeds.
\<close>

record env =
  uploadToYouTube :: "schedule_entry \<Rightarrow> string + string"
  executeQuery :: "schedule_entry \<Rightarrow> string option"

definition unallocated :: schedule_entry where
  "unallocated =
     \<lparr>entry_id = None, productionId = [], title = [], publishTime = 0, status = Scheduled,
      priority = 0, createdAt = 0, publishedAt = None, youtubeId = None, youtubeUrl = None,
      error = None\<rparr>"

definition emptyState :: agent_state where
  "emptyState =
     \<lparr>heap = (\<lambda>r. unallocated), nextRef = 0, publishQueue = [], publish_schedule = [],
      uploadLog = []\<rparr>"

text \<open>
  \<^verbatim>\<open>db.saveScheduleEntry\<close>: the id is generated and assigned to the entry object before
  the insert statement runs, so it stays assigned when the statement is rejected.  The
  generated id (\<^verbatim>\<open>schedule_<time>_<random>\<close>) is the parameter \<open>newId\<close>.
\<close>

definition saveScheduleEntry :: "env \<Rightarrow> string \<Rightarrow> nat \<Rightarrow> agent_state \<Rightarrow> string option \<times> agent_state" where
  "saveScheduleEntry w newId r s =
     (let s1 = s\<lparr>heap := (heap s)(r := (heap s r)\<lparr>entry_id := Some newId\<rparr>)\<rparr>;
          entry = heap s1 r
      in case executeQuery w entry of
           Some err \<Rightarrow> (Some err, s1)
         | None \<Rightarrow>
             (None, s1\<lparr>publish_schedule := publish_schedule s1 @
                [\<lparr>row_id = newId, row_production_id = productionId entry,
                  row_title = title entry, row_publish_time = publishTime entry,
                  row_status = status entry, row_priority = priority entry,
                  row_youtube_id = None, row_youtube_url = None,
                  row_published_at = None, row_error_message = None\<rparr>]\<rparr>))"

text \<open>\<^verbatim>\<open>x || null\<close> on an optional string: the empty string is falsy.\<close>

definition orNull :: "string option \<Rightarrow> string option" where
  "orNull x = (case x of Some [] \<Rightarrow> None | _ \<Rightarrow> x)"

definition updateRow :: "schedule_entry \<Rightarrow> db_row \<Rightarrow> db_row" where
  "updateRow entry row =
     (if Some (row_id row) = entry_id entry
      then row\<lparr>row_status := status entry, row_youtube_id := orNull (youtubeId entry),
               row_youtube_url := orNull (youtubeUrl entry),
               row_published_at := publishedAt entry,
               row_error_message := orNull (error entry)\<rparr>
      else row)"

definition updateScheduleEntry :: "env \<Rightarrow> nat \<Rightarrow> agent_state \<Rightarrow> string option \<times> agent_state" where
  "updateScheduleEntry w r s =
     (case executeQuery w (heap s r) of
        Some err \<Rightarrow> (Some err, s)
      | None \<Rightarrow> (None, s\<lparr>publish_schedule := map (updateRow (heap s r)) (publish_schedule s)\<rparr>))"

text \<open>
  \<^verbatim>\<open>scheduleContent\<close>: the entry object is created, pushed on the queue, the queue is
  sorted by publish time (\<^verbatim>\<open>Array.prototype.sort\<close> is stable, as \<open>sort_key\<close> is), and the
  entry is saved.  The result is the error rethrown or the reference of the entry
  returned; the state is returned in both cases, since the mutations made before a throw
  stay.
\<close>

definition scheduleContent ::
  "env \<Rightarrow> time \<Rightarrow> string \<Rightarrow> production_item \<Rightarrow> agent_state \<Rightarrow> (string + nat) \<times> agent_state" where
  "scheduleContent w now newId productionData s =
     (let r = nextRef s;
          scheduleEntry =
            \<lparr>entry_id = None, productionId = prod_id productionData,
             title = script_title (prod_script productionData),
             publishTime = scheduledPublishTime productionData, status = Scheduled,
             priority = prod_priority productionData, createdAt = now, publishedAt = None,
             youtubeId = None, youtubeUrl = None, error = None\<rparr>;
          s1 = s\<lparr>heap := (heap s)(r := scheduleEntry), nextRef := Suc r\<rparr>;
          s2 = s1\<lparr>publishQueue := publishQueue s1 @ [r]\<rparr>;
          s3 = s2\<lparr>publishQueue := sort_key (\<lambda>x. publishTime (heap s2 x)) (publishQueue s2)\<rparr>
      in case saveScheduleEntry w newId r s3 of
           (Some err, s4) \<Rightarrow> (Inl err, s4)
         | (None, s4) \<Rightarrow> (Inr r, s4))"

text \<open>
  \<^verbatim>\<open>this.publishQueue.find(entry => entry.productionId === contentId || entry.id === contentId)\<close>
\<close>

definition findEntry :: "string \<Rightarrow> agent_state \<Rightarrow> nat option" where
  "findEntry contentId s =
     List.find (\<lambda>r. productionId (heap s r) = contentId \<or> entry_id (heap s r) = Some contentId)
       (publishQueue s)"

definition publishContent ::
  "env \<Rightarrow> time \<Rightarrow> string \<Rightarrow> agent_state \<Rightarrow> (string + nat) \<times> agent_state" where
  "publishContent w now contentId s =
     (case findEntry contentId s of
        None \<Rightarrow> (Inl (''Content not found in queue: '' @ contentId), s)
      | Some r \<Rightarrow>
          (let s0 = s\<lparr>uploadLog := uploadLog s @ [r]\<rparr>
           in case uploadToYouTube w (heap s0 r) of
                Inl err \<Rightarrow> (Inl err, s0)
              | Inr videoId \<Rightarrow>
                  (let s1 = s0\<lparr>heap := (heap s0)(r := (heap s0 r)
                              \<lparr>status := Published, publishedAt := Some now,
                               youtubeId := Some videoId,
                               youtubeUrl := Some (''https://www.youtube.com/watch?v='' @ videoId)\<rparr>)\<rparr>
                   in case updateScheduleEntry w r s1 of
                        (Some err, s2) \<Rightarrow> (Inl err, s2)
                      | (None, s2) \<Rightarrow>
                          (Inr r, s2\<lparr>publishQueue :=
                             filter (\<lambda>x. entry_id (heap s2 x) \<noteq> entry_id (heap s2 r))
                               (publishQueue s2)\<rparr>))))"

text \<open>
  The loop of \<^verbatim>\<open>processPublishQueue\<close> over \<^verbatim>\<open>readyToPublish\<close>.  When
  \<^verbatim>\<open>publishContent\<close> throws, the entry of this iteration is marked failed and the database
  row is updated; that update is inside the \<^verbatim>\<open>catch\<close> block, so its rejection leaves the
  loop and the method (\<open>Some err\<close>).
\<close>

fun drainLoop :: "env \<Rightarrow> time \<Rightarrow> nat list \<Rightarrow> agent_state \<Rightarrow> string option \<times> agent_state" where
  "drainLoop w now [] s = (None, s)"
| "drainLoop w now (entry # rest) s =
     (case publishContent w now (productionId (heap s entry)) s of
        (Inr r, s1) \<Rightarrow> drainLoop w now rest s1
      | (Inl msg, s1) \<Rightarrow>
          (let s2 = s1\<lparr>heap := (heap s1)(entry := (heap s1 entry)\<lparr>status := Failed, error := Some msg\<rparr>)\<rparr>
           in case updateScheduleEntry w entry s2 of
                (Some err, s3) \<Rightarrow> (Some err, s3)
              | (None, s3) \<Rightarrow> drainLoop w now rest s3))"

definition readyToPublish :: "time \<Rightarrow> agent_state \<Rightarrow> nat list" where
  "readyToPublish now s =
     filter (\<lambda>entry. publishTime (heap s entry) \<le> now \<and> status (heap s entry) = Scheduled)
       (publishQueue s)"

definition processPublishQueue :: "env \<Rightarrow> time \<Rightarrow> agent_state \<Rightarrow> (string + nat) \<times> agent_state" where
  "processPublishQueue w now s =
     (case drainLoop w now (readyToPublish now s) s of
        (Some err, s') \<Rightarrow> (Inl err, s')
      | (None, s') \<Rightarrow> (Inr (length (readyToPublish now s)), s'))"

definition getUpcomingSchedule :: "time \<Rightarrow> int \<Rightarrow> agent_state \<Rightarrow> nat list" where
  "getUpcomingSchedule now days s =
     (let endDate = now + days * msPerDay
      in sort_key (\<lambda>r. publishTime (heap s r))
           (filter (\<lambda>entry. publishTime (heap s entry) \<ge> now \<and> publishTime (heap s entry) \<le> endDate)
              (publishQueue s)))"

definition pauseScheduledContent :: "env \<Rightarrow> string \<Rightarrow> agent_state \<Rightarrow> (string + nat) \<times> agent_state" where
  "pauseScheduledContent w contentId s =
     (case findEntry contentId s of
        None \<Rightarrow> (Inl (''Content not found: '' @ contentId), s)
      | Some r \<Rightarrow>
          (let s1 = s\<lparr>heap := (heap s)(r := (heap s r)\<lparr>status := Paused\<rparr>)\<rparr>
           in case updateScheduleEntry w r s1 of
                (Some err, s2) \<Rightarrow> (Inl err, s2)
              | (None, s2) \<Rightarrow> (Inr r, s2)))"

text \<open>
  \<^verbatim>\<open>resumeScheduledContent\<close>.  \<open>newPublishTime\<close> is \<open>None\<close> for \<^verbatim>\<open>null\<close>, else the time as
  a number of milliseconds; the test \<^verbatim>\<open>if (newPublishTime)\<close> is false for \<^verbatim>\<open>null\<close> and for
  the number 0.
\<close>

definition resumeScheduledContent ::
  "env \<Rightarrow> string \<Rightarrow> time option \<Rightarrow> agent_state \<Rightarrow> (string + nat) \<times> agent_state" where
  "resumeScheduledContent w contentId newPublishTime s =
     (case findEntry contentId s of
        None \<Rightarrow> (Inl (''Content not found: '' @ contentId), s)
      | Some r \<Rightarrow>
          (let entry = (heap s r)\<lparr>status := Scheduled\<rparr>;
               entry = (case newPublishTime of
                          None \<Rightarrow> entry
                        | Some t \<Rightarrow> if t = 0 then entry else entry\<lparr>publishTime := t\<rparr>);
               s1 = s\<lparr>heap := (heap s)(r := entry)\<rparr>
           in case updateScheduleEntry w r s1 of
                (Some err, s2) \<Rightarrow> (Inl err, s2)
              | (None, s2) \<Rightarrow> (Inr r, s2)))"

section \<open>Scheduler: content-generation gating\<close>

text \<open>
  The settings \<^verbatim>\<open>shouldGenerateContentToday\<close> reads.  \<open>content_buffer_days\<close> is the value
  of \<^verbatim>\<open>parseInt(await this.db.getSetting('content_buffer_days'))\<close>, \<open>None\<close> when that is
  \<^verbatim>\<open>NaN\<close> (no such setting, or no leading digits); \<open>posting_frequency\<close> and
  \<open>last_content_generation\<close> are \<open>None\<close> when the setting is absent.
\<close>

record generation_settings =
  content_buffer_days :: "int option"
  posting_frequency :: "string option"
  last_content_generation :: "time option"

text \<open>
  \<open>todayDay\<close> is \<^verbatim>\<open>today.getDay()\<close> (0 is Sunday), which depends on the local time zone.
\<close>

definition shouldGenerateContentToday ::
  "generation_settings \<Rightarrow> time \<Rightarrow> nat \<Rightarrow> agent_state \<Rightarrow> bool" where
  "shouldGenerateContentToday cfg today todayDay s =
     (let upcomingContent = getUpcomingSchedule today 3 s;
          bufferDays = (case content_buffer_days cfg of
                          None \<Rightarrow> 3
                        | Some n \<Rightarrow> if n = 0 then 3 else n)
      in if int (length upcomingContent) \<ge> bufferDays then False
         else
           (let frequency = (case posting_frequency cfg of
                               None \<Rightarrow> ''daily''
                             | Some f \<Rightarrow> if f = [] then ''daily'' else f)
            in case last_content_generation cfg of
                 None \<Rightarrow> True
               | Some lastDate \<Rightarrow>
                   (let daysSinceLastGeneration = (today - lastDate) div msPerDay
                    in if frequency = ''daily'' then daysSinceLastGeneration \<ge> 1
                       else if frequency = ''every-2-days'' then daysSinceLastGeneration \<ge> 2
                       else if frequency = ''3-per-week''
                         then daysSinceLastGeneration \<ge> 2 \<or> todayDay \<in> set [1, 3, 5]
                       else if frequency = ''weekly'' then daysSinceLastGeneration \<ge> 7
                       else True)))"

section \<open>Auxiliary notions and concrete inputs\<close>

text \<open>
  Worlds and items used to evaluate the operations: a world where every upload and every
  database statement succeeds, a world where every upload is refused, and a production
  item with a given id, status and publish time.
\<close>

definition okEnv :: env where
  "okEnv = \<lparr>uploadToYouTube = (\<lambda>e. Inr (''yt_'' @ productionId e)), executeQuery = (\<lambda>e. None)\<rparr>"

definition refusingEnv :: env where
  "refusingEnv = \<lparr>uploadToYouTube = (\<lambda>e. Inl ''quotaExceeded''), executeQuery = (\<lambda>e. None)\<rparr>"

definition exampleItem :: "string \<Rightarrow> string \<Rightarrow> time \<Rightarrow> production_item" where
  "exampleItem pid st t =
     \<lparr>prod_id = pid,
      prod_strategy = \<lparr>estimatedViews = 20000, competitorAnalysis = None, bestPublishTime = Some t\<rparr>,
      prod_script = \<lparr>script_title = ''Video'', duration = 60, mainContent = Some []\<rparr>,
      prod_status = st,
      prod_assets =
        \<lparr>asset_script = descriptor, asset_thumbnail = descriptor, asset_audio = None,
         asset_video = None, asset_captions = None, asset_finalVideo = None\<rparr>,
      prod_timeline =
        \<lparr>created = Some 0, scriptReady = Some 0, thumbnailReady = Some 0,
         audioGenerated = None, videoGenerated = None, captionsGenerated = None,
         readyForUpload = None\<rparr>,
      scheduledPublishTime = t, prod_priority = 60, estimatedDuration = 60\<rparr>"

text \<open>The number of queue entries that are scheduled for a production id.\<close>

definition scheduledCount :: "string \<Rightarrow> agent_state \<Rightarrow> nat" where
  "scheduledCount pid s =
     length (filter (\<lambda>r. status (heap s r) = Scheduled \<and> productionId (heap s r) = pid)
       (publishQueue s))"

text \<open>
  Well-formed states: the references in the queue have been allocated, and no two queue
  entries carry the same id.  Both hold in the empty state.  Scheduling keeps the first,
  and keeps the second when the generated id is fresh; publishing, draining, pausing and
  resuming keep the second.
\<close>

definition allocated :: "agent_state \<Rightarrow> bool" where
  "allocated s = list_all (\<lambda>r. r < nextRef s) (publishQueue s)"

definition distinctIds :: "agent_state \<Rightarrow> bool" where
  "distinctIds s = distinct (map (\<lambda>r. entry_id (heap s r)) (publishQueue s))"

text \<open>
  The entry object that \<^verbatim>\<open>scheduleContent\<close> builds for a production item, once the store
  has assigned its id.
\<close>

definition newEntry :: "time \<Rightarrow> string \<Rightarrow> production_item \<Rightarrow> schedule_entry" where
  "newEntry now newId p =
     \<lparr>entry_id = Some newId, productionId = prod_id p, title = script_title (prod_script p),
      publishTime = scheduledPublishTime p, status = Scheduled, priority = prod_priority p,
      createdAt = now, publishedAt = None, youtubeId = None, youtubeUrl = None, error = None\<rparr>"

text \<open>
  Queue states reached from the empty state: \<open>stateA\<close> after scheduling an item whose
  status is still \<^verbatim>\<open>'processing'\<close>; \<open>stateAA\<close> after scheduling the same ready item twice.
\<close>

definition stateA :: agent_state where
  "stateA =
     snd (scheduleContent okEnv 0 ''schedule_A'' (exampleItem ''prod_A'' ''processing'' 10) emptyState)"

definition stateAA :: agent_state where
  "stateAA =
     snd (scheduleContent okEnv 1 ''schedule_A2'' (exampleItem ''prod_A'' ''ready'' 10)
       (snd (scheduleContent okEnv 0 ''schedule_A1'' (exampleItem ''prod_A'' ''ready'' 10) emptyState)))"

text \<open>
  \<open>stateAB\<close>: two ready items scheduled for times 10 and 20.  \<open>stateResumed\<close>: the first
  of them then resumed with the new publish time 30.  \<open>refusingAEnv\<close>: a world that refuses
  the upload of the first item and accepts every other upload.
\<close>

definition stateAB :: agent_state where
  "stateAB =
     snd (scheduleContent okEnv 1 ''schedule_B'' (exampleItem ''prod_B'' ''ready'' 20)
       (snd (scheduleContent okEnv 0 ''schedule_A'' (exampleItem ''prod_A'' ''ready'' 10) emptyState)))"

definition stateResumed :: agent_state where
  "stateResumed = snd (resumeScheduledContent okEnv ''prod_A'' (Some 30) stateAB)"

definition refusingAEnv :: env where
  "refusingAEnv =
     \<lparr>uploadToYouTube = (\<lambda>e. if productionId e = ''prod_A'' then Inl ''quotaExceeded''
                               else Inr (''yt_'' @ productionId e)),
      executeQuery = (\<lambda>e. None)\<rparr>"

text \<open>
  \<open>stateABC\<close>: three ready items scheduled for times 30, 20 and 40.  \<open>stateMixed\<close>: the
  same queue after the first item was paused, a drain at time 20 failed to upload the
  second, and a direct \<^verbatim>\<open>publishContent\<close> of the third uploaded it and then had its
  database update rejected, which leaves the entry in the queue with status
  \<^verbatim>\<open>'published'\<close>.
\<close>

definition stateABC :: agent_state where
  "stateABC =
     snd (scheduleContent okEnv 2 ''schedule_C'' (exampleItem ''prod_C'' ''ready'' 40)
       (snd (scheduleContent okEnv 1 ''schedule_B'' (exampleItem ''prod_B'' ''ready'' 20)
         (snd (scheduleContent okEnv 0 ''schedule_A'' (exampleItem ''prod_A'' ''ready'' 30) emptyState)))))"

definition storeRejectsPublishedEnv :: env where
  "storeRejectsPublishedEnv =
     \<lparr>uploadToYouTube = (\<lambda>e. Inr (''yt_'' @ productionId e)),
      executeQuery = (\<lambda>e. if status e = Published then Some ''SQLITE_BUSY'' else None)\<rparr>"

definition stateMixed :: agent_state where
  "stateMixed =
     snd (publishContent storeRejectsPublishedEnv 20 ''prod_C''
       (snd (processPublishQueue refusingEnv 20
         (snd (pauseScheduledContent okEnv ''prod_A'' stateABC)))))"

text \<open>The time window of \<^verbatim>\<open>getUpcomingSchedule\<close>, as a predicate on a queue entry.\<close>

definition inWindow :: "time \<Rightarrow> int \<Rightarrow> agent_state \<Rightarrow> nat \<Rightarrow> bool" where
  "inWindow now days s r =
     (now \<le> publishTime (heap s r) \<and> publishTime (heap s r) \<le> now + days * msPerDay)"

text \<open>
  A world in which every call of the pipeline succeeds, and a content brief.
\<close>

definition okWorld :: production_env where
  "okWorld =
     \<lparr>newProductionId = ''prod_1'', stamp = ''1700000000000'', tomorrow2pm = 86400000,
      fs_writeScript = None,
      generateThumbnail = Inr (descriptor\<lparr>path := Some ''uploads/thumbnails/thumbnail_1.png''\<rparr>),
      thumbnailExists = True, fs_copyThumbnail = None, fs_writePlaceholder = None,
      db_saveProductionData = None,
      generateVisualAssets = (\<lambda>prompt. Inr [''data/assets/visual_1_0.png'']),
      fs_readTTS = None, generateTTSAudio = None, fs_writeAudioInfo = None,
      writeCaptions = None, generateVideo = None, fs_statFinalVideo = None,
      fs_writeAssembly = None, db_updateProductionData = None\<rparr>"

definition exampleBrief :: content_data where
  "exampleBrief =
     \<lparr>cd_strategy = \<lparr>estimatedViews = 200000, competitorAnalysis = None, bestPublishTime = Some 43200000\<rparr>,
      cd_script = \<lparr>script_title = ''Dreams'', duration = 480,
                   mainContent = Some [\<lparr>section_title = ''Origins''\<rparr>]\<rparr>,
      cd_thumbnail = \<lparr>thumbnail_path = Some ''data/thumbnails/t.jpg''\<rparr>\<rparr>"

text \<open>
  \<open>succeeds w scr\<close>: every call that the pipeline can make for the script \<open>scr\<close> in the
  world \<open>w\<close> returns.  \<open>genuineAI\<close> and \<open>genuineCaptions\<close>: the artifact is present, is the
  one the stage builds after its call returned (\<^verbatim>\<open>generatedWith: 'AI'\<close>, for captions
  \<^verbatim>\<open>autoGenerated: true\<close>), and is not marked simulated.
\<close>

definition succeeds :: "production_env \<Rightarrow> script \<Rightarrow> bool" where
  "succeeds w scr =
     (fs_writeScript w = None \<and> \<not> isl (generateThumbnail w)
      \<and> fs_copyThumbnail w = None \<and> fs_writePlaceholder w = None
      \<and> db_saveProductionData w = None
      \<and> list_all (\<lambda>prompt. \<not> isl (generateVisualAssets w prompt)) (createVisualPromptsFromScript scr)
      \<and> fs_readTTS w = None \<and> generateTTSAudio w = None \<and> fs_writeAudioInfo w = None
      \<and> writeCaptions w = None
      \<and> generateVideo w = None \<and> fs_statFinalVideo w = None \<and> fs_writeAssembly w = None
      \<and> db_updateProductionData w = None)"

definition genuineAI :: "artifact option \<Rightarrow> bool" where
  "genuineAI a = (case a of None \<Rightarrow> False | Some d \<Rightarrow> generatedWith d = Some ''AI'' \<and> \<not> simulated d)"

definition genuineCaptions :: "artifact option \<Rightarrow> bool" where
  "genuineCaptions a = (case a of None \<Rightarrow> False | Some d \<Rightarrow> autoGenerated d \<and> \<not> simulated d)"


text \<open>
  Runs of the pipeline on the brief in which one call throws and every other call
  succeeds: the thumbnail generator, the caption stage, the TTS call, the visual-asset
  generator, the video generator of the final assembly.
\<close>

definition thumbnailFailureRun :: "string + production_item" where
  "thumbnailFailureRun =
     processContent (okWorld\<lparr>generateThumbnail := Inl ''image service unavailable''\<rparr>) 0 exampleBrief"

definition captionFailureRun :: "string + production_item" where
  "captionFailureRun =
     processContent (okWorld\<lparr>writeCaptions := Some ''EACCES: permission denied''\<rparr>) 0 exampleBrief"

definition ttsFailureRun :: "string + production_item" where
  "ttsFailureRun =
     processContent (okWorld\<lparr>generateTTSAudio := Some ''speech service unavailable''\<rparr>) 0 exampleBrief"

definition visualFailureRun :: "string + production_item" where
  "visualFailureRun =
     processContent (okWorld\<lparr>generateVisualAssets := (\<lambda>prompt. Inl ''image service unavailable'')\<rparr>)
       0 exampleBrief"

definition assemblyFailureRun :: "string + production_item" where
  "assemblyFailureRun =
     processContent (okWorld\<lparr>generateVideo := Some ''video service unavailable''\<rparr>) 0 exampleBrief"

section \<open>Theorems\<close>

lemma hours_less_iff:
  "(of_int d / of_int msPerHour < (of_int k :: rat)) = (d < k * msPerHour)"
proof -
  have "(of_int d / of_int msPerHour < (of_int k :: rat))
      = ((of_int d :: rat) < of_int k * of_int msPerHour)"
    by (simp add: msPerHour_def pos_divide_less_eq)
  also have "\<dots> = (d < k * msPerHour)"
    by (simp only: of_int_mult [symmetric] of_int_less_iff)
  finally show ?thesis .
qed

lemma calculatePriority_unfold:
  "calculatePriority now s =
     min 100 (50 + viewsBonus (estimatedViews s) + competitorBonus (competitorAnalysis s)
                 + timeBonus now (bestPublishTime s))"
proof -
  have t: "(case hoursUntilPublish now s of
               None \<Rightarrow> p
             | Some h \<Rightarrow> if h < 24 then p + 20 else if h < 48 then p + 10 else p)
           = p + timeBonus now (bestPublishTime s)" for p :: int
  proof (cases "bestPublishTime s")
    case None
    then show ?thesis by (simp add: hoursUntilPublish_def timeBonus_def)
  next
    case (Some t)
    have h24: "(of_int (t - now) / of_int msPerHour < (24 :: rat)) = (t - now < 24 * msPerHour)"
      using hours_less_iff [of "t - now" 24] by simp
    have h48: "(of_int (t - now) / of_int msPerHour < (48 :: rat)) = (t - now < 48 * msPerHour)"
      using hours_less_iff [of "t - now" 48] by simp
    from Some show ?thesis
      by (simp only: hoursUntilPublish_def timeBonus_def option.case h24 h48 split: if_splits)
         simp
  qed
  have c: "(case competitorAnalysis s of Some (c # cs) \<Rightarrow> p + 10 | _ \<Rightarrow> p)
           = p + competitorBonus (competitorAnalysis s)" for p :: int
    by (simp add: competitorBonus_def split: option.splits list.splits)
  show ?thesis
    unfolding calculatePriority_def Let_def t c
    by (simp add: viewsBonus_def)
qed

text \<open>
  C8.  \<^verbatim>\<open>calculatePriority\<close> returns the base 50 plus the bonus for the estimated views
  (+30 above 100000, +20 above 50000, +10 above 10000), plus 10 when competitor data is
  present, plus the bonus for the time left until the target publish time (+20 below 24
  hours, +10 below 48 hours), capped at 100; the result lies between 0 and 100 for every
  strategy and every clock reading; and for 200000 estimated views, no competitor data and
  a target publish time 12 hours after now the priority is 100.
\<close>

theorem C8_calculatePriority:
  "calculatePriority now s =
     min 100 (50 + viewsBonus (estimatedViews s) + competitorBonus (competitorAnalysis s)
                 + timeBonus now (bestPublishTime s))
   \<and> 0 \<le> calculatePriority now s \<and> calculatePriority now s \<le> 100
   \<and> calculatePriority now
        \<lparr>estimatedViews = 200000, competitorAnalysis = None,
         bestPublishTime = Some (now + 12 * msPerHour)\<rparr> = 100"
proof -
  have range: "0 \<le> calculatePriority now s \<and> calculatePriority now s \<le> 100"
    unfolding calculatePriority_unfold
    by (simp add: viewsBonus_def competitorBonus_def timeBonus_def split: option.splits)
  have scen: "calculatePriority now
        \<lparr>estimatedViews = 200000, competitorAnalysis = None,
         bestPublishTime = Some (now + 12 * msPerHour)\<rparr> = 100"
    unfolding calculatePriority_unfold
    by (simp add: viewsBonus_def competitorBonus_def timeBonus_def msPerHour_def)
  from calculatePriority_unfold range scen show ?thesis by blast
qed

subsection \<open>Scheduling\<close>

lemma scheduleContent_heap:
  "heap (snd (scheduleContent w now newId p s)) = (heap s)(nextRef s := newEntry now newId p)"
  by (simp add: scheduleContent_def saveScheduleEntry_def Let_def newEntry_def split: option.splits)

lemma scheduleContent_nextRef:
  "nextRef (snd (scheduleContent w now newId p s)) = Suc (nextRef s)"
  by (simp add: scheduleContent_def saveScheduleEntry_def Let_def split: option.splits)

lemma publishTime_key_id:
  "(\<lambda>x. publishTime ((h(r := e\<lparr>entry_id := i\<rparr>)) x)) = (\<lambda>x. publishTime ((h(r := e)) x))"
  by (rule ext) simp

lemma scheduleContent_queue:
  "publishQueue (snd (scheduleContent w now newId p s)) =
     sort_key (\<lambda>x. publishTime (heap (snd (scheduleContent w now newId p s)) x)) (publishQueue s @ [nextRef s])"
proof -
  have "publishQueue (snd (scheduleContent w now newId p s)) =
     sort_key (\<lambda>x. publishTime (((heap s)(nextRef s := (newEntry now newId p)\<lparr>entry_id := None\<rparr>)) x))
       (publishQueue s @ [nextRef s])"
    by (simp add: scheduleContent_def saveScheduleEntry_def Let_def newEntry_def split: option.splits)
  then show ?thesis
    by (simp only: scheduleContent_heap publishTime_key_id)
qed

lemma scheduleContent_result:
  "fst (scheduleContent w now newId p s) =
     (case executeQuery w (newEntry now newId p) of Some err \<Rightarrow> Inl err | None \<Rightarrow> Inr (nextRef s))"
  by (simp add: scheduleContent_def saveScheduleEntry_def Let_def newEntry_def split: option.splits)

lemma scheduleContent_rows:
  "publish_schedule (snd (scheduleContent w now newId p s)) =
     (case executeQuery w (newEntry now newId p) of
        Some err \<Rightarrow> publish_schedule s
      | None \<Rightarrow> publish_schedule s @
          [\<lparr>row_id = newId, row_production_id = prod_id p,
            row_title = script_title (prod_script p), row_publish_time = scheduledPublishTime p,
            row_status = Scheduled, row_priority = prod_priority p,
            row_youtube_id = None, row_youtube_url = None,
            row_published_at = None, row_error_message = None\<rparr>])"
  by (simp add: scheduleContent_def saveScheduleEntry_def Let_def newEntry_def split: option.splits)

lemma scheduleContent_status_irrelevant:
  "scheduleContent w now newId (p\<lparr>prod_status := st\<rparr>) s = scheduleContent w now newId p s"
  by (simp add: scheduleContent_def)

lemma scheduledCount_scheduleContent:
  assumes "allocated s"
  shows "scheduledCount (prod_id p) (snd (scheduleContent w now newId p s)) = Suc (scheduledCount (prod_id p) s)"
proof -
  let ?s' = "snd (scheduleContent w now newId p s)"
  let ?P' = "\<lambda>r. status (heap ?s' r) = Scheduled \<and> productionId (heap ?s' r) = prod_id p"
  let ?P = "\<lambda>r. status (heap s r) = Scheduled \<and> productionId (heap s r) = prod_id p"
  from assms have old: "\<And>x. x \<in> set (publishQueue s) \<Longrightarrow> x \<noteq> nextRef s"
    by (auto simp: allocated_def list_all_iff)
  have "filter ?P' (publishQueue s) = filter ?P (publishQueue s)"
    by (rule filter_cong) (auto simp: scheduleContent_heap dest: old)
  moreover have "?P' (nextRef s)"
    by (simp add: scheduleContent_heap newEntry_def)
  ultimately have "filter ?P' (publishQueue s @ [nextRef s]) = filter ?P (publishQueue s) @ [nextRef s]"
    by simp
  then have "length (filter ?P' (publishQueue ?s')) = Suc (length (filter ?P (publishQueue s)))"
    by (subst scheduleContent_queue) (simp only: filter_sort length_sort length_append, simp)
  then show ?thesis by (simp add: scheduledCount_def)
qed


text \<open>
  C3, as stated, fails: an item whose status is \<^verbatim>\<open>'processing'\<close> is scheduled without
  error.  Starting from the empty queue, \<^verbatim>\<open>scheduleContent\<close> returns the new entry, the
  queue holds it with status \<^verbatim>\<open>'scheduled'\<close>, and its row is in the database.
\<close>

theorem C3_counterexample:
  "prod_status (exampleItem ''prod_A'' ''processing'' 10) \<noteq> ''ready''
   \<and> fst (scheduleContent okEnv 0 ''schedule_A'' (exampleItem ''prod_A'' ''processing'' 10) emptyState) = Inr 0
   \<and> publishQueue emptyState = []
   \<and> publishQueue stateA = [0]
   \<and> status (heap stateA 0) = Scheduled
   \<and> productionId (heap stateA 0) = ''prod_A''
   \<and> map row_id (publish_schedule stateA) = [''schedule_A'']"
  by (simp add: stateA_def scheduleContent_def saveScheduleEntry_def okEnv_def exampleItem_def
        emptyState_def Let_def)

text \<open>
  C3, amended.  \<^verbatim>\<open>scheduleContent\<close> does not read the status of the production item and
  raises no validation error: for every item, whatever its status, it builds an entry with
  status \<^verbatim>\<open>'scheduled'\<close>, pushes it on the in-memory queue and sorts the queue by publish
  time; when the insert statement of the store succeeds, the entry is returned and
  persisted: its row, with the entry's id, production id, title, publish time, status
  \<^verbatim>\<open>'scheduled'\<close> and priority, is appended to the table.
\<close>

theorem C3_scheduleContent_any_status:
  "scheduleContent w now newId (p\<lparr>prod_status := st\<rparr>) s = scheduleContent w now newId p s
   \<and> publishQueue (snd (scheduleContent w now newId p s)) =
       sort_key (\<lambda>x. publishTime (heap (snd (scheduleContent w now newId p s)) x))
         (publishQueue s @ [nextRef s])
   \<and> heap (snd (scheduleContent w now newId p s)) (nextRef s) = newEntry now newId p
   \<and> status (newEntry now newId p) = Scheduled
   \<and> (executeQuery w (newEntry now newId p) = None \<longrightarrow>
        fst (scheduleContent w now newId p s) = Inr (nextRef s)
        \<and> publish_schedule (snd (scheduleContent w now newId p s)) =
            publish_schedule s @
              [\<lparr>row_id = newId, row_production_id = prod_id p,
                row_title = script_title (prod_script p),
                row_publish_time = scheduledPublishTime p,
                row_status = Scheduled, row_priority = prod_priority p,
                row_youtube_id = None, row_youtube_url = None,
                row_published_at = None, row_error_message = None\<rparr>])"
  using scheduleContent_queue [of w now newId p s]
  by (simp add: scheduleContent_status_irrelevant scheduleContent_heap scheduleContent_result
        scheduleContent_rows newEntry_def)

text \<open>The amended C3 at the item of the counterexample, in a world whose store accepts the insert.\<close>

theorem C3_scheduleContent_any_status_witness:
  "executeQuery okEnv (newEntry 0 ''schedule_A'' (exampleItem ''prod_A'' ''processing'' 10)) = None
   \<and> prod_status (exampleItem ''prod_A'' ''processing'' 10) = ''processing''
   \<and> fst (scheduleContent okEnv 0 ''schedule_A'' (exampleItem ''prod_A'' ''processing'' 10) emptyState) = Inr 0
   \<and> status (heap stateA 0) = Scheduled
   \<and> publish_schedule stateA =
       [\<lparr>row_id = ''schedule_A'', row_production_id = ''prod_A'', row_title = ''Video'',
         row_publish_time = 10, row_status = Scheduled, row_priority = 60,
         row_youtube_id = None, row_youtube_url = None,
         row_published_at = None, row_error_message = None\<rparr>]"
  using C3_scheduleContent_any_status [where w = okEnv and now = 0 and newId = "''schedule_A''"
      and p = "exampleItem ''prod_A'' ''processing'' 10" and st = "''processing''" and s = emptyState]
  by (simp add: stateA_def okEnv_def emptyState_def exampleItem_def)

text \<open>
  C4, as stated, fails: scheduling the same ready production item twice is not rejected,
  and leaves two entries with status \<^verbatim>\<open>'scheduled'\<close> and the same production id in the
  queue.
\<close>

theorem C4_counterexample:
  "publishQueue stateAA = [0, 1]
   \<and> status (heap stateAA 0) = Scheduled \<and> status (heap stateAA 1) = Scheduled
   \<and> productionId (heap stateAA 0) = ''prod_A'' \<and> productionId (heap stateAA 1) = ''prod_A''
   \<and> fst (scheduleContent okEnv 1 ''schedule_A2'' (exampleItem ''prod_A'' ''ready'' 10)
      (snd (scheduleContent okEnv 0 ''schedule_A1'' (exampleItem ''prod_A'' ''ready'' 10) emptyState))) = Inr 1
   \<and> scheduledCount ''prod_A'' stateAA = 2"
  by (simp add: stateAA_def scheduleContent_def saveScheduleEntry_def okEnv_def exampleItem_def
        emptyState_def Let_def scheduledCount_def)

text \<open>
  C4, amended.  \<^verbatim>\<open>scheduleContent\<close> does not look for an existing entry of the production
  id: every call adds one more scheduled entry for the item's production id to the queue,
  and the call returns an entry exactly when the insert statement of the store succeeds.
\<close>

theorem C4_scheduleContent_adds_entry:
  "allocated s \<Longrightarrow>
     scheduledCount (prod_id p) (snd (scheduleContent w now newId p s)) = Suc (scheduledCount (prod_id p) s)
     \<and> ((\<exists>r. fst (scheduleContent w now newId p s) = Inr r) = (executeQuery w (newEntry now newId p) = None))"
  by (simp add: scheduledCount_scheduleContent scheduleContent_result split: option.splits)

lemma allocated_scheduleContent:
  "allocated s \<Longrightarrow> allocated (snd (scheduleContent w now newId p s))"
  by (auto simp: allocated_def list_all_iff scheduleContent_queue [of w now newId p s] scheduleContent_nextRef)

lemma allocated_emptyState:
  "allocated emptyState"
  by (simp add: allocated_def emptyState_def)

text \<open>The amended C4 at the second scheduling of the counterexample.\<close>

theorem C4_scheduleContent_adds_entry_witness:
  "allocated (snd (scheduleContent okEnv 0 ''schedule_A1'' (exampleItem ''prod_A'' ''ready'' 10) emptyState))
   \<and> scheduledCount ''prod_A'' (snd (scheduleContent okEnv 0 ''schedule_A1'' (exampleItem ''prod_A'' ''ready'' 10) emptyState)) = 1
   \<and> scheduledCount ''prod_A'' stateAA = 2"
proof -
  let ?s1 = "snd (scheduleContent okEnv 0 ''schedule_A1'' (exampleItem ''prod_A'' ''ready'' 10) emptyState)"
  have a: "allocated ?s1"
    by (rule allocated_scheduleContent [OF allocated_emptyState])
  have one: "scheduledCount ''prod_A'' ?s1 = 1"
    by (simp add: scheduleContent_def saveScheduleEntry_def okEnv_def exampleItem_def
        emptyState_def Let_def scheduledCount_def)
  from C4_scheduleContent_adds_entry [OF a, where p = "exampleItem ''prod_A'' ''ready'' 10"
      and w = okEnv and now = 1 and newId = "''schedule_A2''"] a one
  show ?thesis by (simp add: stateAA_def exampleItem_def)
qed


subsection \<open>Publishing and draining\<close>

lemma stateAB_eval:
  "publishQueue stateAB = [0, 1]"
  "heap stateAB 0 = newEntry 0 ''schedule_A'' (exampleItem ''prod_A'' ''ready'' 10)"
  "heap stateAB 1 = newEntry 1 ''schedule_B'' (exampleItem ''prod_B'' ''ready'' 20)"
  "uploadLog stateAB = []"
  "heap stateAB (Suc 0) = newEntry 1 ''schedule_B'' (exampleItem ''prod_B'' ''ready'' 20)"
  by (simp_all add: stateAB_def scheduleContent_def saveScheduleEntry_def okEnv_def exampleItem_def
        emptyState_def Let_def newEntry_def)

lemma publishContent_success:
  assumes "publishContent w now contentId s = (Inr r, s')"
  shows "findEntry contentId s = Some r"
    and "\<exists>videoId. uploadToYouTube w (heap s r) = Inr videoId
           \<and> heap s' = (heap s)(r := (heap s r)
                 \<lparr>status := Published, publishedAt := Some now, youtubeId := Some videoId,
                  youtubeUrl := Some (''https://www.youtube.com/watch?v='' @ videoId)\<rparr>)"
    and "publishQueue s' = filter (\<lambda>x. entry_id (heap s x) \<noteq> entry_id (heap s r)) (publishQueue s)"
    and "uploadLog s' = uploadLog s @ [r]"
proof -
  from assms obtain r0 where f: "findEntry contentId s = Some r0"
    by (cases "findEntry contentId s") (simp_all add: publishContent_def)
  from assms f obtain videoId where u: "uploadToYouTube w (heap s r0) = Inr videoId"
    by (cases "uploadToYouTube w (heap s r0)") (simp_all add: publishContent_def Let_def)
  define E where "E = (heap s r0)
                 \<lparr>status := Published, publishedAt := Some now, youtubeId := Some videoId,
                  youtubeUrl := Some (''https://www.youtube.com/watch?v='' @ videoId)\<rparr>"
  from assms f u have q: "executeQuery w E = None"
    by (cases "executeQuery w E")
       (simp_all add: publishContent_def updateScheduleEntry_def Let_def E_def)
  define S' where "S' = s\<lparr>uploadLog := uploadLog s @ [r0], heap := (heap s)(r0 := E),
                  publish_schedule := map (updateRow E) (publish_schedule s),
                  publishQueue := filter (\<lambda>x. entry_id (((heap s)(r0 := E)) x) \<noteq> entry_id E)
                                    (publishQueue s)\<rparr>"
  from f u q have "publishContent w now contentId s = (Inr r0, S')"
    by (simp add: publishContent_def updateScheduleEntry_def Let_def E_def S'_def)
  with assms have r: "r = r0" and s': "s' = S'"
    by simp_all
  have ids: "entry_id (((heap s)(r0 := E)) x) = entry_id (heap s x)" for x
    by (simp add: E_def)
  have idE: "entry_id E = entry_id (heap s r0)"
    by (simp add: E_def)
  have hp: "heap S' = (heap s)(r0 := E)"
    and qu: "publishQueue S' = filter (\<lambda>x. entry_id (((heap s)(r0 := E)) x) \<noteq> entry_id E) (publishQueue s)"
    and lg: "uploadLog S' = uploadLog s @ [r0]"
    by (simp_all add: S'_def)
  show "findEntry contentId s = Some r" using f r by simp
  show "\<exists>videoId. uploadToYouTube w (heap s r) = Inr videoId
           \<and> heap s' = (heap s)(r := (heap s r)
                 \<lparr>status := Published, publishedAt := Some now, youtubeId := Some videoId,
                  youtubeUrl := Some (''https://www.youtube.com/watch?v='' @ videoId)\<rparr>)"
    using u r s' hp by (auto simp: E_def)
  show "publishQueue s' = filter (\<lambda>x. entry_id (heap s x) \<noteq> entry_id (heap s r)) (publishQueue s)"
    unfolding s' r qu by (simp only: ids idE)
  show "uploadLog s' = uploadLog s @ [r]"
    using r s' lg by simp
qed

lemma findEntry_Some:
  "findEntry contentId s = Some r \<Longrightarrow>
     r \<in> set (publishQueue s)
     \<and> (productionId (heap s r) = contentId \<or> entry_id (heap s r) = Some contentId)"
  by (auto simp: findEntry_def find_Some_iff)

text \<open>
  C5.  In a queue whose entries carry pairwise distinct ids, a call of \<^verbatim>\<open>publishContent\<close>
  that succeeds on the entry \<open>r\<close> finds \<open>r\<close> in the queue under the given content id, sets
  its status to \<^verbatim>\<open>'published'\<close> and sets \<^verbatim>\<open>publishedAt\<close>, \<^verbatim>\<open>youtubeId\<close> and \<^verbatim>\<open>youtubeUrl\<close>,
  removes \<open>r\<close> and only \<open>r\<close> from the in-memory queue, which keeps every other entry in its
  place, and leaves every other entry object as it was.
\<close>

theorem C5_publishContent_frame:
  assumes "distinctIds s" and "publishContent w now contentId s = (Inr r, s')"
  shows "r \<in> set (publishQueue s)
     \<and> (productionId (heap s r) = contentId \<or> entry_id (heap s r) = Some contentId)
     \<and> (\<exists>videoId. uploadToYouTube w (heap s r) = Inr videoId
          \<and> heap s' r = (heap s r)
                \<lparr>status := Published, publishedAt := Some now, youtubeId := Some videoId,
                 youtubeUrl := Some (''https://www.youtube.com/watch?v='' @ videoId)\<rparr>)
     \<and> publishQueue s' = filter (\<lambda>x. x \<noteq> r) (publishQueue s)
     \<and> Suc (length (publishQueue s')) = length (publishQueue s)
     \<and> (\<forall>x. x \<noteq> r \<longrightarrow> heap s' x = heap s x)"
proof -
  note ok = publishContent_success [OF assms(2)]
  from findEntry_Some [OF ok(1)] have mem: "r \<in> set (publishQueue s)"
    and key: "productionId (heap s r) = contentId \<or> entry_id (heap s r) = Some contentId"
    by simp_all
  from assms(1) have dq: "distinct (publishQueue s)"
    and inj: "inj_on (\<lambda>x. entry_id (heap s x)) (set (publishQueue s))"
    by (simp_all add: distinctIds_def distinct_map)
  have "filter (\<lambda>x. entry_id (heap s x) \<noteq> entry_id (heap s r)) (publishQueue s)
      = filter (\<lambda>x. x \<noteq> r) (publishQueue s)"
    by (rule filter_cong) (use inj mem in \<open>auto dest: inj_onD\<close>)
  with ok(3) have q: "publishQueue s' = filter (\<lambda>x. x \<noteq> r) (publishQueue s)"
    by simp
  have "filter (\<lambda>x. x \<noteq> r) xs = removeAll r xs" for xs :: "nat list"
    by (induction xs) auto
  with dq have "filter (\<lambda>x. x \<noteq> r) (publishQueue s) = remove1 r (publishQueue s)"
    by (simp add: distinct_remove1_removeAll)
  with q have "length (publishQueue s') = length (publishQueue s) - 1"
    using mem by (simp add: length_remove1)
  moreover from mem have "0 < length (publishQueue s)"
    by (rule length_pos_if_in_set)
  ultimately have len: "Suc (length (publishQueue s')) = length (publishQueue s)"
    by simp
  from ok(2) obtain videoId where up: "uploadToYouTube w (heap s r) = Inr videoId"
    and h: "heap s' = (heap s)(r := (heap s r)
                 \<lparr>status := Published, publishedAt := Some now, youtubeId := Some videoId,
                  youtubeUrl := Some (''https://www.youtube.com/watch?v='' @ videoId)\<rparr>)"
    by blast
  from h have frame: "\<forall>x. x \<noteq> r \<longrightarrow> heap s' x = heap s x"
    by simp
  from h have at_r: "heap s' r = (heap s r)
                \<lparr>status := Published, publishedAt := Some now, youtubeId := Some videoId,
                 youtubeUrl := Some (''https://www.youtube.com/watch?v='' @ videoId)\<rparr>"
    by simp
  from mem key up at_r q len frame show ?thesis by blast
qed

lemma publish_A_eval:
  "fst (publishContent okEnv 40 ''prod_A'' stateAB) = Inr 0"
  by (simp add: publishContent_def findEntry_def updateScheduleEntry_def stateAB_eval okEnv_def
        newEntry_def exampleItem_def Let_def)

lemma distinctIds_stateAB:
  "distinctIds stateAB"
  by (simp add: distinctIds_def stateAB_eval newEntry_def)

text \<open>C5 at the queue of two scheduled entries, publishing the first.\<close>

theorem C5_publishContent_frame_witness:
  "distinctIds stateAB
   \<and> fst (publishContent okEnv 40 ''prod_A'' stateAB) = Inr 0
   \<and> publishQueue stateAB = [0, 1]
   \<and> publishQueue (snd (publishContent okEnv 40 ''prod_A'' stateAB)) = [1]
   \<and> status (heap (snd (publishContent okEnv 40 ''prod_A'' stateAB)) 0) = Published
   \<and> heap (snd (publishContent okEnv 40 ''prod_A'' stateAB)) 1 = heap stateAB 1"
proof -
  have run: "publishContent okEnv 40 ''prod_A'' stateAB
             = (Inr 0, snd (publishContent okEnv 40 ''prod_A'' stateAB))"
    using publish_A_eval by (simp add: prod_eq_iff)
  from C5_publishContent_frame [OF distinctIds_stateAB run] distinctIds_stateAB publish_A_eval
  show ?thesis by (auto simp: stateAB_eval)
qed

text \<open>
  C6 at a failing input.  Two items are scheduled for times 10 and 20 and the first is
  resumed with the new publish time 30; \<^verbatim>\<open>resumeScheduledContent\<close> rewrites the time in
  place and does not sort the queue again.  A drain at time 40 finds both entries due and
  uploads the entry with publish time 30 before the entry with publish time 20.
\<close>

theorem C6_drain_order:
  "publishQueue stateResumed = [0, 1]
   \<and> status (heap stateResumed 0) = Scheduled \<and> publishTime (heap stateResumed 0) = 30
   \<and> status (heap stateResumed 1) = Scheduled \<and> publishTime (heap stateResumed 1) = 20
   \<and> readyToPublish 40 stateResumed = [0, 1]
   \<and> fst (processPublishQueue okEnv 40 stateResumed) = Inr 2
   \<and> uploadLog (snd (processPublishQueue okEnv 40 stateResumed)) = [0, 1]"
  by (simp add: processPublishQueue_def readyToPublish_def stateResumed_def resumeScheduledContent_def publishContent_def findEntry_def updateScheduleEntry_def stateAB_eval okEnv_def
        newEntry_def exampleItem_def Let_def)

text \<open>
  C7 at a failing input.  Two entries are due; the upload of the first is refused and the
  entry is marked failed, the second is published.  One publish succeeded, and
  \<^verbatim>\<open>processPublishQueue\<close> returns 2, the number of due entries.
\<close>

theorem C7_drain_count:
  "readyToPublish 40 stateAB = [0, 1]
   \<and> fst (processPublishQueue refusingAEnv 40 stateAB) = Inr 2
   \<and> status (heap (snd (processPublishQueue refusingAEnv 40 stateAB)) 0) = Failed
   \<and> error (heap (snd (processPublishQueue refusingAEnv 40 stateAB)) 0) = Some ''quotaExceeded''
   \<and> status (heap (snd (processPublishQueue refusingAEnv 40 stateAB)) 1) = Published
   \<and> publishQueue (snd (processPublishQueue refusingAEnv 40 stateAB)) = [0]
   \<and> uploadLog (snd (processPublishQueue refusingAEnv 40 stateAB)) = [0, 1]"
  by (simp add: processPublishQueue_def readyToPublish_def publishContent_def findEntry_def updateScheduleEntry_def stateAB_eval refusingAEnv_def
        newEntry_def exampleItem_def Let_def)


text \<open>
  A publish attempt that throws does not end the drain: when the database update in the
  \<^verbatim>\<open>catch\<close> block succeeds, the loop goes on with the remaining due entries, from the
  state in which the entry of this iteration is marked failed with the error message.
\<close>

lemma drainLoop_failure_isolated:
  assumes "publishContent w now (productionId (heap s entry)) s = (Inl msg, s1)"
    and "executeQuery w ((heap s1 entry)\<lparr>status := Failed, error := Some msg\<rparr>) = None"
  shows "drainLoop w now (entry # rest) s =
     drainLoop w now rest
       (s1\<lparr>heap := (heap s1)(entry := (heap s1 entry)\<lparr>status := Failed, error := Some msg\<rparr>),
           publish_schedule :=
             map (updateRow ((heap s1 entry)\<lparr>status := Failed, error := Some msg\<rparr>))
               (publish_schedule s1)\<rparr>)"
  using assms by (simp add: updateScheduleEntry_def Let_def)

subsection \<open>Invariants of the queue\<close>

lemma processPublishQueue_count:
  "fst (processPublishQueue w now s) = Inr n \<Longrightarrow> n = length (readyToPublish now s)"
  by (auto simp: processPublishQueue_def split: prod.splits option.splits)

lemma entry_id_key:
  "entry_id e = entry_id (h r) \<Longrightarrow> (\<lambda>x. entry_id ((h(r := e)) x)) = (\<lambda>x. entry_id (h x))"
  by (rule ext) simp

lemma distinctIds_emptyState:
  "distinctIds emptyState"
  by (simp add: distinctIds_def emptyState_def)

lemma distinct_map_sort_key:
  "distinct (map g (sort_key f xs)) = distinct (map g xs)"
  by (simp add: distinct_map)

lemma distinctIds_scheduleContent:
  assumes "allocated s" and "distinctIds s"
    and "Some newId \<notin> (\<lambda>r. entry_id (heap s r)) ` set (publishQueue s)"
  shows "distinctIds (snd (scheduleContent w now newId p s))"
proof -
  let ?h = "(heap s)(nextRef s := newEntry now newId p)"
  from assms(1) have old: "\<And>x. x \<in> set (publishQueue s) \<Longrightarrow> x \<noteq> nextRef s"
    by (auto simp: allocated_def list_all_iff)
  then have m: "map (\<lambda>r. entry_id (?h r)) (publishQueue s) = map (\<lambda>r. entry_id (heap s r)) (publishQueue s)"
    by (auto intro: map_cong)
  have new: "entry_id (?h (nextRef s)) = Some newId"
    by (simp add: newEntry_def)
  have "distinct (map (\<lambda>r. entry_id (?h r)) (publishQueue s @ [nextRef s]))"
    unfolding map_append distinct_append m
    using assms(2,3) by (auto simp: distinctIds_def newEntry_def)
  then show ?thesis
    unfolding distinctIds_def
    by (subst scheduleContent_queue) (simp only: scheduleContent_heap distinct_map_sort_key)
qed

lemma distinctIds_frame:
  assumes "distinctIds s" and "\<And>x. entry_id (heap s' x) = entry_id (heap s x)"
    and "publishQueue s' = filter P (publishQueue s)"
  shows "distinctIds s'"
  using assms by (simp add: distinctIds_def distinct_map_filter)

lemma publishContent_ids:
  "entry_id (heap (snd (publishContent w now contentId s)) x) = entry_id (heap s x)"
  by (simp add: publishContent_def updateScheduleEntry_def Let_def split: option.splits sum.splits)

lemma publishContent_queue:
  "\<exists>P. publishQueue (snd (publishContent w now contentId s)) = filter P (publishQueue s)"
proof (cases "fst (publishContent w now contentId s)")
  case (Inl e)
  then have "publishQueue (snd (publishContent w now contentId s)) = filter (\<lambda>x. True) (publishQueue s)"
    by (auto simp: publishContent_def updateScheduleEntry_def Let_def split: option.splits sum.splits)
  then show ?thesis by blast
next
  case (Inr r)
  then have "publishContent w now contentId s = (Inr r, snd (publishContent w now contentId s))"
    by (simp add: prod_eq_iff)
  from publishContent_success(3) [OF this] show ?thesis by blast
qed

lemma distinctIds_publishContent:
  "distinctIds s \<Longrightarrow> distinctIds (snd (publishContent w now contentId s))"
  using publishContent_queue [of w now contentId s]
  by (auto intro: distinctIds_frame simp: publishContent_ids)


lemma updateScheduleEntry_frame:
  "heap (snd (updateScheduleEntry w r s)) = heap s"
  "publishQueue (snd (updateScheduleEntry w r s)) = publishQueue s"
  by (simp_all add: updateScheduleEntry_def split: option.splits)

lemma distinctIds_drainLoop:
  "distinctIds s \<Longrightarrow> distinctIds (snd (drainLoop w now rs s))"
proof (induction rs arbitrary: s)
  case Nil
  then show ?case by simp
next
  case (Cons entry rest)
  obtain res s1 where p: "publishContent w now (productionId (heap s entry)) s = (res, s1)"
    by (cases "publishContent w now (productionId (heap s entry)) s")
  from distinctIds_publishContent [OF Cons.prems, of w now "productionId (heap s entry)"] p
  have d1: "distinctIds s1" by simp
  show ?case
  proof (cases res)
    case (Inr r)
    with p Cons.IH [OF d1] show ?thesis by simp
  next
    case (Inl msg)
    define s2 where "s2 = s1\<lparr>heap := (heap s1)(entry := (heap s1 entry)\<lparr>status := Failed, error := Some msg\<rparr>)\<rparr>"
    have d2: "distinctIds s2"
      by (rule distinctIds_frame [OF d1, where P = "\<lambda>x. True"]) (simp_all add: s2_def)
    obtain e3 s3 where u: "updateScheduleEntry w entry s2 = (e3, s3)"
      by (cases "updateScheduleEntry w entry s2")
    from updateScheduleEntry_frame [of w entry s2] u
    have "heap s3 = heap s2" "publishQueue s3 = publishQueue s2" by simp_all
    with d2 have d3: "distinctIds s3" by (simp add: distinctIds_def)
    show ?thesis
    proof (cases e3)
      case None
      with p Inl u Cons.IH [OF d3] show ?thesis by (simp add: s2_def Let_def)
    next
      case (Some err)
      with p Inl u d3 show ?thesis by (simp add: s2_def Let_def)
    qed
  qed
qed

lemma distinctIds_processPublishQueue:
  "distinctIds s \<Longrightarrow> distinctIds (snd (processPublishQueue w now s))"
  using distinctIds_drainLoop [of s w now "readyToPublish now s"]
  by (cases "drainLoop w now (readyToPublish now s) s")
     (auto simp: processPublishQueue_def split: option.splits)

lemma pauseScheduledContent_frame:
  "entry_id (heap (snd (pauseScheduledContent w contentId s)) x) = entry_id (heap s x)"
  "publishQueue (snd (pauseScheduledContent w contentId s)) = publishQueue s"
  by (simp_all add: pauseScheduledContent_def updateScheduleEntry_def Let_def split: option.splits)

lemma resumeScheduledContent_frame:
  "entry_id (heap (snd (resumeScheduledContent w contentId newPublishTime s)) x) = entry_id (heap s x)"
  "publishQueue (snd (resumeScheduledContent w contentId newPublishTime s)) = publishQueue s"
  by (simp_all add: resumeScheduledContent_def updateScheduleEntry_def Let_def split: option.splits)

lemma distinctIds_pauseScheduledContent:
  "distinctIds s \<Longrightarrow> distinctIds (snd (pauseScheduledContent w contentId s))"
  by (rule distinctIds_frame [where P = "\<lambda>x. True"]) (simp_all add: pauseScheduledContent_frame)

lemma distinctIds_resumeScheduledContent:
  "distinctIds s \<Longrightarrow> distinctIds (snd (resumeScheduledContent w contentId newPublishTime s))"
  by (rule distinctIds_frame [where P = "\<lambda>x. True"]) (simp_all add: resumeScheduledContent_frame)

subsection \<open>Upcoming schedule and generation gating\<close>

lemma stateABC_eval:
  "publishQueue stateABC = [1, 0, 2]"
  "heap stateABC 0 = newEntry 0 ''schedule_A'' (exampleItem ''prod_A'' ''ready'' 30)"
  "heap stateABC 1 = newEntry 1 ''schedule_B'' (exampleItem ''prod_B'' ''ready'' 20)"
  "heap stateABC (Suc 0) = newEntry 1 ''schedule_B'' (exampleItem ''prod_B'' ''ready'' 20)"
  "heap stateABC 2 = newEntry 2 ''schedule_C'' (exampleItem ''prod_C'' ''ready'' 40)"
  by (simp_all add: stateABC_def scheduleContent_def saveScheduleEntry_def okEnv_def exampleItem_def
        emptyState_def Let_def newEntry_def)

lemma stateMixed_eval:
  "publishQueue stateMixed = [1, 0, 2]"
  "map (\<lambda>r. status (heap stateMixed r)) [1, 0, 2] = [Failed, Paused, Published]"
  "map (\<lambda>r. publishTime (heap stateMixed r)) [1, 0, 2] = [20, 30, 40]"
  by (simp_all add: stateMixed_def publishContent_def processPublishQueue_def readyToPublish_def
        pauseScheduledContent_def findEntry_def updateScheduleEntry_def stateABC_eval
        storeRejectsPublishedEnv_def refusingEnv_def okEnv_def newEntry_def exampleItem_def Let_def)

text \<open>
  C9, as stated, fails in its second half: with three upcoming entries and the buffer
  lowered to 2, \<^verbatim>\<open>shouldGenerateContentToday\<close> returns false, not true.
\<close>

theorem C9_counterexample:
  "length (getUpcomingSchedule 0 3 stateABC) = 3
   \<and> shouldGenerateContentToday
        \<lparr>content_buffer_days = Some 2, posting_frequency = None, last_content_generation = None\<rparr>
        0 1 stateABC = False"
  by (simp add: shouldGenerateContentToday_def getUpcomingSchedule_def stateABC_eval newEntry_def
        exampleItem_def msPerDay_def Let_def)

text \<open>
  C9, amended.  When the upcoming-schedule count is 3, \<^verbatim>\<open>shouldGenerateContentToday\<close>
  returns false with a buffer of 3 and still returns false with the buffer lowered to 2,
  since generation is skipped whenever the count is at least the buffer; with the buffer
  raised to 4 and no last generation recorded it returns true.
\<close>

theorem C9_buffer_gate:
  "length (getUpcomingSchedule today 3 s) = 3 \<Longrightarrow>
     \<not> shouldGenerateContentToday (cfg\<lparr>content_buffer_days := Some 3\<rparr>) today todayDay s
   \<and> \<not> shouldGenerateContentToday (cfg\<lparr>content_buffer_days := Some 2\<rparr>) today todayDay s
   \<and> shouldGenerateContentToday
        (cfg\<lparr>content_buffer_days := Some 4, last_content_generation := None\<rparr>) today todayDay s"
  by (simp add: shouldGenerateContentToday_def Let_def)

text \<open>The amended C9 at the queue of three scheduled entries.\<close>

theorem C9_buffer_gate_witness:
  "length (getUpcomingSchedule 0 3 stateABC) = 3
   \<and> \<not> shouldGenerateContentToday
        \<lparr>content_buffer_days = Some 3, posting_frequency = None, last_content_generation = None\<rparr>
        0 1 stateABC
   \<and> \<not> shouldGenerateContentToday
        \<lparr>content_buffer_days = Some 2, posting_frequency = None, last_content_generation = None\<rparr>
        0 1 stateABC
   \<and> shouldGenerateContentToday
        \<lparr>content_buffer_days = Some 4, posting_frequency = None, last_content_generation = None\<rparr>
        0 1 stateABC"
proof -
  have three: "length (getUpcomingSchedule 0 3 stateABC) = 3"
    by (simp add: getUpcomingSchedule_def stateABC_eval newEntry_def exampleItem_def msPerDay_def Let_def)
  from C9_buffer_gate [OF three, where todayDay = 1
      and cfg = "\<lparr>content_buffer_days = None, posting_frequency = None, last_content_generation = None\<rparr>"]
    three
  show ?thesis by simp
qed

lemma inWindow_fun:
  "inWindow now days s =
     (\<lambda>r. now \<le> publishTime (heap s r) \<and> publishTime (heap s r) \<le> now + days * msPerDay)"
  by (rule ext) (simp add: inWindow_def)

lemma getUpcomingSchedule_length:
  "length (getUpcomingSchedule now days s) = length (filter (inWindow now days s) (publishQueue s))"
  by (simp add: getUpcomingSchedule_def inWindow_fun Let_def)

lemma getUpcomingSchedule_set:
  "set (getUpcomingSchedule now days s) = {r \<in> set (publishQueue s). inWindow now days s r}"
  by (auto simp: getUpcomingSchedule_def inWindow_def Let_def)

lemma publishTime_key_status:
  "(\<lambda>r. publishTime ((heap s r)\<lparr>status := st r\<rparr>)) = (\<lambda>r. publishTime (heap s r))"
  by (rule ext) simp

text \<open>
  C10.  \<^verbatim>\<open>getUpcomingSchedule\<close> does not read the status of an entry: relabelling the
  statuses of all entries leaves its result unchanged, every queue entry inside the time
  window is in the result, and the result has as many entries as the queue has inside
  the window.  So when that number, counted over entries of any status, reaches the
  configured buffer, \<^verbatim>\<open>shouldGenerateContentToday\<close> returns false.
\<close>

theorem C10_upcoming_ignores_status:
  "getUpcomingSchedule now days (s\<lparr>heap := (\<lambda>r. (heap s r)\<lparr>status := st r\<rparr>)\<rparr>)
     = getUpcomingSchedule now days s
   \<and> (r \<in> set (publishQueue s) \<and> inWindow now days s r \<longrightarrow> r \<in> set (getUpcomingSchedule now days s))
   \<and> length (getUpcomingSchedule now days s) = length (filter (inWindow now days s) (publishQueue s))
   \<and> (content_buffer_days cfg = Some n \<and> n \<noteq> 0
        \<and> n \<le> int (length (filter (inWindow now 3 s) (publishQueue s)))
      \<longrightarrow> \<not> shouldGenerateContentToday cfg now todayDay s)"
proof -
  have a: "getUpcomingSchedule now days (s\<lparr>heap := (\<lambda>r. (heap s r)\<lparr>status := st r\<rparr>)\<rparr>)
     = getUpcomingSchedule now days s"
    by (simp add: getUpcomingSchedule_def Let_def)
  have b: "r \<in> set (publishQueue s) \<and> inWindow now days s r \<longrightarrow> r \<in> set (getUpcomingSchedule now days s)"
    by (simp add: getUpcomingSchedule_set)
  have c: "content_buffer_days cfg = Some n \<and> n \<noteq> 0
        \<and> n \<le> int (length (filter (inWindow now 3 s) (publishQueue s)))
      \<longrightarrow> \<not> shouldGenerateContentToday cfg now todayDay s"
    by (simp add: shouldGenerateContentToday_def getUpcomingSchedule_length Let_def)
  from a b c getUpcomingSchedule_length show ?thesis by blast
qed

text \<open>
  C10 at a queue that holds one failed, one paused and one published entry and no
  scheduled one: all three are upcoming, and generation is suppressed.
\<close>

theorem C10_upcoming_ignores_status_witness:
  "map (\<lambda>r. status (heap stateMixed r)) (publishQueue stateMixed) = [Failed, Paused, Published]
   \<and> list_all (inWindow 20 3 stateMixed) (publishQueue stateMixed)
   \<and> length (getUpcomingSchedule 20 3 stateMixed) = 3
   \<and> \<not> shouldGenerateContentToday
        \<lparr>content_buffer_days = Some 3, posting_frequency = None, last_content_generation = None\<rparr>
        20 1 stateMixed"
proof -
  have w: "list_all (inWindow 20 3 stateMixed) (publishQueue stateMixed)"
    using stateMixed_eval(3) by (simp add: stateMixed_eval(1) inWindow_def msPerDay_def)
  then have f: "filter (inWindow 20 3 stateMixed) (publishQueue stateMixed) = publishQueue stateMixed"
    by (simp add: list_all_iff)
  from C10_upcoming_ignores_status [where now = 20 and days = 3 and s = stateMixed and n = 3 and r = 1
      and cfg = "\<lparr>content_buffer_days = Some 3, posting_frequency = None, last_content_generation = None\<rparr>"
      and todayDay = 1] w f stateMixed_eval
  show ?thesis by simp
qed


subsection \<open>Production pipeline\<close>

lemma collectVisualAssets_ok:
  "list_all (\<lambda>p. \<not> isl (gen p)) ps \<Longrightarrow> \<exists>paths. collectVisualAssets gen ps acc = Inr paths"
proof (induction ps arbitrary: acc)
  case Nil
  then show ?case by simp
next
  case (Cons p ps)
  then obtain new where "gen p = Inr new"
    by (cases "gen p") simp_all
  with Cons show ?case by simp
qed


lemmas stage_defs =
  processContent_def processScript_def processThumbnail_def generateVideoContent_def
  generateAudioNarration_def simulateAudioGeneration_def generateCaptions_def assembleVideo_def
  simulateVideoAssembly_def descriptor_def Let_def

lemmas example_defs =
  okWorld_def exampleBrief_def createVisualPromptsFromScript_def

text \<open>
  C1, as stated, fails.  When only the thumbnail generator throws, the item reaches
  \<^verbatim>\<open>'ready'\<close> but its thumbnail artifact is not marked simulated; when only the caption
  stage throws, \<^verbatim>\<open>processContent\<close> rethrows the error and returns no item.
\<close>

theorem C1_counterexample:
  "\<not> isl thumbnailFailureRun
   \<and> prod_status (projr thumbnailFailureRun) = ''ready''
   \<and> simulated (asset_thumbnail (prod_assets (projr thumbnailFailureRun))) = False
   \<and> captionFailureRun = Inl ''EACCES: permission denied''"
  by (simp add: thumbnailFailureRun_def captionFailureRun_def stage_defs example_defs)

text \<open>
  C2 at failing inputs.  When the TTS call throws, \<^verbatim>\<open>simulateAudioGeneration\<close> stores the
  placeholder audio artifact and does not set \<^verbatim>\<open>timeline.audioGenerated\<close>; when the
  visual-asset generator throws, the fallback of \<^verbatim>\<open>generateVideoContent\<close> does not set
  \<^verbatim>\<open>timeline.videoGenerated\<close>.  In both runs the item is returned with status \<^verbatim>\<open>'ready'\<close>
  and the milestone still \<^verbatim>\<open>null\<close>.
\<close>

theorem C2_ready_with_unset_milestones:
  "\<not> isl ttsFailureRun
   \<and> prod_status (projr ttsFailureRun) = ''ready''
   \<and> audioGenerated (prod_timeline (projr ttsFailureRun)) = None
   \<and> \<not> isl visualFailureRun
   \<and> prod_status (projr visualFailureRun) = ''ready''
   \<and> videoGenerated (prod_timeline (projr visualFailureRun)) = None"
  by (simp add: ttsFailureRun_def visualFailureRun_def stage_defs example_defs)

lemma succeeds_collect:
  assumes "succeeds w scr"
  obtains paths where
    "collectVisualAssets (generateVisualAssets w) (createVisualPromptsFromScript scr) [] = Inr paths"
  using assms collectVisualAssets_ok [of "generateVisualAssets w" "createVisualPromptsFromScript scr" "[]"]
  by (auto simp: succeeds_def)

text \<open>
  C1, amended.  In a world where every other call succeeds:
  \<^item> if the TTS call of the audio stage throws, \<^verbatim>\<open>processContent\<close> returns an item with
    status \<^verbatim>\<open>'ready'\<close> whose audio artifact is a placeholder marked \<^verbatim>\<open>simulated: true\<close> and
    whose thumbnail, video, captions and final video are genuinely generated;
  \<^item> if the generator call of the thumbnail stage throws, \<^verbatim>\<open>processContent\<close> returns an
    item with status \<^verbatim>\<open>'ready'\<close> whose audio, video, captions and final video are genuinely
    generated and whose thumbnail artifact is the fallback descriptor, which carries
    neither \<^verbatim>\<open>generatedWith\<close> nor \<^verbatim>\<open>simulated\<close>;
  \<^item> if the video generator call of the final assembly throws, \<^verbatim>\<open>processContent\<close> returns
    an item with status \<^verbatim>\<open>'ready'\<close> whose final-video artifact is a placeholder marked
    \<^verbatim>\<open>simulated: true\<close> and whose thumbnail, audio, video and captions are genuinely
    generated;
  \<^item> if the caption stage throws, \<^verbatim>\<open>processContent\<close> rethrows the error and returns no
    item.
\<close>

theorem C1_single_stage_failure:
  assumes "succeeds w (cd_script brief)" and "mainContent (cd_script brief) \<noteq> None"
  shows "(\<exists>item. processContent (w\<lparr>generateTTSAudio := Some err\<rparr>) now brief = Inr item
            \<and> prod_status item = ''ready''
            \<and> (\<exists>d. asset_audio (prod_assets item) = Some d \<and> simulated d)
            \<and> genuineAI (Some (asset_thumbnail (prod_assets item)))
            \<and> genuineAI (asset_video (prod_assets item))
            \<and> genuineCaptions (asset_captions (prod_assets item))
            \<and> genuineAI (asset_finalVideo (prod_assets item)))
       \<and> (\<exists>item. processContent (w\<lparr>generateThumbnail := Inl err\<rparr>) now brief = Inr item
            \<and> prod_status item = ''ready''
            \<and> \<not> simulated (asset_thumbnail (prod_assets item))
            \<and> generatedWith (asset_thumbnail (prod_assets item)) = None
            \<and> genuineAI (asset_audio (prod_assets item))
            \<and> genuineAI (asset_video (prod_assets item))
            \<and> genuineCaptions (asset_captions (prod_assets item))
            \<and> genuineAI (asset_finalVideo (prod_assets item)))
       \<and> (\<exists>item. processContent (w\<lparr>generateVideo := Some err\<rparr>) now brief = Inr item
            \<and> prod_status item = ''ready''
            \<and> (\<exists>d. asset_finalVideo (prod_assets item) = Some d \<and> simulated d)
            \<and> genuineAI (Some (asset_thumbnail (prod_assets item)))
            \<and> genuineAI (asset_audio (prod_assets item))
            \<and> genuineAI (asset_video (prod_assets item))
            \<and> genuineCaptions (asset_captions (prod_assets item)))
       \<and> processContent (w\<lparr>writeCaptions := Some err\<rparr>) now brief = Inl err"
proof -
  from assms(1) obtain paths where
    c: "collectVisualAssets (generateVisualAssets w) (createVisualPromptsFromScript (cd_script brief)) [] = Inr paths"
    by (rule succeeds_collect)
  from assms(1) obtain thumb where t: "generateThumbnail w = Inr thumb"
    by (cases "generateThumbnail w") (simp_all add: succeeds_def)
  from assms(2) obtain sections where m: "mainContent (cd_script brief) = Some sections"
    by auto
  from assms(1) have ok: "fs_writeScript w = None" "fs_copyThumbnail w = None"
    "fs_writePlaceholder w = None" "db_saveProductionData w = None" "fs_readTTS w = None"
    "generateTTSAudio w = None" "fs_writeAudioInfo w = None" "writeCaptions w = None"
    "generateVideo w = None" "fs_statFinalVideo w = None" "fs_writeAssembly w = None"
    "db_updateProductionData w = None"
    by (simp_all add: succeeds_def)
  have audio: "\<exists>item. processContent (w\<lparr>generateTTSAudio := Some err\<rparr>) now brief = Inr item
            \<and> prod_status item = ''ready''
            \<and> (\<exists>d. asset_audio (prod_assets item) = Some d \<and> simulated d)
            \<and> genuineAI (Some (asset_thumbnail (prod_assets item)))
            \<and> genuineAI (asset_video (prod_assets item))
            \<and> genuineCaptions (asset_captions (prod_assets item))
            \<and> genuineAI (asset_finalVideo (prod_assets item))"
    by (simp add: stage_defs c t m ok genuineAI_def genuineCaptions_def)
  have thumbnail: "\<exists>item. processContent (w\<lparr>generateThumbnail := Inl err\<rparr>) now brief = Inr item
            \<and> prod_status item = ''ready''
            \<and> \<not> simulated (asset_thumbnail (prod_assets item))
            \<and> generatedWith (asset_thumbnail (prod_assets item)) = None
            \<and> genuineAI (asset_audio (prod_assets item))
            \<and> genuineAI (asset_video (prod_assets item))
            \<and> genuineCaptions (asset_captions (prod_assets item))
            \<and> genuineAI (asset_finalVideo (prod_assets item))"
    by (simp add: stage_defs c m ok genuineAI_def genuineCaptions_def)
  have assembly: "\<exists>item. processContent (w\<lparr>generateVideo := Some err\<rparr>) now brief = Inr item
            \<and> prod_status item = ''ready''
            \<and> (\<exists>d. asset_finalVideo (prod_assets item) = Some d \<and> simulated d)
            \<and> genuineAI (Some (asset_thumbnail (prod_assets item)))
            \<and> genuineAI (asset_audio (prod_assets item))
            \<and> genuineAI (asset_video (prod_assets item))
            \<and> genuineCaptions (asset_captions (prod_assets item))"
    by (simp add: stage_defs c t m ok genuineAI_def genuineCaptions_def)
  have captions: "processContent (w\<lparr>writeCaptions := Some err\<rparr>) now brief = Inl err"
    by (simp add: stage_defs c t m ok)
  from audio thumbnail assembly captions show ?thesis by blast
qed

lemma succeeds_okWorld:
  "succeeds okWorld (cd_script exampleBrief)"
  by (simp add: succeeds_def example_defs)

text \<open>The amended C1 at the brief and the world of the examples.\<close>

theorem C1_single_stage_failure_witness:
  "succeeds okWorld (cd_script exampleBrief) \<and> mainContent (cd_script exampleBrief) \<noteq> None
   \<and> \<not> isl ttsFailureRun
   \<and> prod_status (projr ttsFailureRun) = ''ready''
   \<and> map_option simulated (asset_audio (prod_assets (projr ttsFailureRun))) = Some True
   \<and> \<not> isl thumbnailFailureRun
   \<and> prod_status (projr thumbnailFailureRun) = ''ready''
   \<and> \<not> simulated (asset_thumbnail (prod_assets (projr thumbnailFailureRun)))
   \<and> \<not> isl assemblyFailureRun
   \<and> prod_status (projr assemblyFailureRun) = ''ready''
   \<and> map_option simulated (asset_finalVideo (prod_assets (projr assemblyFailureRun))) = Some True
   \<and> captionFailureRun = Inl ''EACCES: permission denied''"
proof -
  have m: "mainContent (cd_script exampleBrief) \<noteq> None"
    by (simp add: exampleBrief_def)
  from C1_single_stage_failure [OF succeeds_okWorld m, where now = 0
      and err = "''speech service unavailable''"]
  obtain item where a: "ttsFailureRun = Inr item" "prod_status item = ''ready''"
      "\<exists>d. asset_audio (prod_assets item) = Some d \<and> simulated d"
    unfolding ttsFailureRun_def by blast
  from C1_single_stage_failure [OF succeeds_okWorld m, where now = 0
      and err = "''image service unavailable''"]
  obtain item' where t: "thumbnailFailureRun = Inr item'" "prod_status item' = ''ready''"
      "\<not> simulated (asset_thumbnail (prod_assets item'))"
    unfolding thumbnailFailureRun_def by blast
  from C1_single_stage_failure [OF succeeds_okWorld m, where now = 0
      and err = "''video service unavailable''"]
  obtain item'' where v: "assemblyFailureRun = Inr item''" "prod_status item'' = ''ready''"
      "\<exists>d. asset_finalVideo (prod_assets item'') = Some d \<and> simulated d"
    unfolding assemblyFailureRun_def by blast
  from C1_single_stage_failure [OF succeeds_okWorld m, where now = 0
      and err = "''EACCES: permission denied''"]
  have c: "captionFailureRun = Inl ''EACCES: permission denied''"
    unfolding captionFailureRun_def by blast
  from a(3) have a': "map_option simulated (asset_audio (prod_assets item)) = Some True"
    by auto
  from v(3) have v': "map_option simulated (asset_finalVideo (prod_assets item'')) = Some True"
    by auto
  from succeeds_okWorld m a(2) a' t(2,3) v(2) v' c show ?thesis
    by (simp add: a(1) t(1) v(1))
qed

text \<open>
  The caption stage has no fallback: its error is the result of \<^verbatim>\<open>processContent\<close>.
\<close>

lemma processContent_caption_failure:
  assumes "succeeds w (cd_script brief)" and "mainContent (cd_script brief) \<noteq> None"
  shows "processContent (w\<lparr>writeCaptions := Some err\<rparr>) now brief = Inl err"
proof -
  from assms(1) obtain paths where
    c: "collectVisualAssets (generateVisualAssets w) (createVisualPromptsFromScript (cd_script brief)) [] = Inr paths"
    by (rule succeeds_collect)
  from assms(1) obtain thumb where t: "generateThumbnail w = Inr thumb"
    by (cases "generateThumbnail w") (simp_all add: succeeds_def)
  from assms(2) obtain sections where m: "mainContent (cd_script brief) = Some sections"
    by auto
  from assms(1) have ok: "fs_writeScript w = None" "db_saveProductionData w = None"
    "fs_readTTS w = None" "generateTTSAudio w = None"
    by (simp_all add: succeeds_def)
  show ?thesis
    by (simp add: stage_defs c t m ok)
qed


text \<open>
  The timeline of every item that \<^verbatim>\<open>processContent\<close> returns: the item is ready, and the
  audio and video milestones are set exactly when the stage did not fall back.
\<close>

lemma generateVideoContent_timeline:
  "prod_timeline (generateVideoContent w now p) =
     (if isl (collectVisualAssets (generateVisualAssets w)
                (createVisualPromptsFromScript (prod_script p)) [])
      then prod_timeline p else (prod_timeline p)\<lparr>videoGenerated := Some now\<rparr>)"
  by (simp add: generateVideoContent_def split: sum.splits)

lemma generateAudioNarration_timeline:
  "generateAudioNarration w now p = Inr p' \<Longrightarrow>
     prod_timeline p' =
       (if fs_readTTS w = None \<and> generateTTSAudio w = None
        then (prod_timeline p)\<lparr>audioGenerated := Some now\<rparr> else prod_timeline p)"
  by (auto simp: generateAudioNarration_def simulateAudioGeneration_def Let_def
        split: option.splits)

lemma generateCaptions_timeline:
  "generateCaptions w now p = Inr p' \<Longrightarrow>
     prod_timeline p' = (prod_timeline p)\<lparr>captionsGenerated := Some now\<rparr>"
  by (auto simp: generateCaptions_def Let_def split: option.splits)

lemma assembleVideo_timeline:
  "assembleVideo w p = Inr p' \<Longrightarrow> prod_timeline p' = prod_timeline p"
  by (auto simp: assembleVideo_def simulateVideoAssembly_def Let_def split: option.splits)

lemma processContent_stages:
  assumes "processContent w now brief = Inr item"
  obtains p0 p1 p2 p3 where
    "prod_script p0 = cd_script brief"
    "prod_timeline p0 =
       \<lparr>created = Some now, scriptReady = Some now, thumbnailReady = Some now,
        audioGenerated = None, videoGenerated = None, captionsGenerated = None,
        readyForUpload = None\<rparr>"
    "generateAudioNarration w now (generateVideoContent w now p0) = Inr p1"
    "generateCaptions w now p1 = Inr p2"
    "assembleVideo w p2 = Inr p3"
    "item = p3\<lparr>prod_status := ''ready'',
               prod_timeline := (prod_timeline p3)\<lparr>readyForUpload := Some now\<rparr>\<rparr>"
proof -
  from assms obtain scriptAsset where
    1: "processScript w (cd_script brief) = Inr scriptAsset"
    by (cases "processScript w (cd_script brief)") (simp_all add: processContent_def)
  from assms 1 obtain thumbnailAsset where
    2: "processThumbnail w (cd_thumbnail brief) = Inr thumbnailAsset"
    by (cases "processThumbnail w (cd_thumbnail brief)") (simp_all add: processContent_def)
  define p0 where "p0 =
            \<lparr>prod_id = newProductionId w,
             prod_strategy = cd_strategy brief,
             prod_script = cd_script brief,
             prod_status = ''processing'',
             prod_assets =
               \<lparr>asset_script = scriptAsset, asset_thumbnail = thumbnailAsset,
                asset_audio = None, asset_video = None, asset_captions = None,
                asset_finalVideo = None\<rparr>,
             prod_timeline =
               \<lparr>created = Some now, scriptReady = Some now, thumbnailReady = Some now,
                audioGenerated = None, videoGenerated = None, captionsGenerated = None,
                readyForUpload = None\<rparr>,
             scheduledPublishTime = calculatePublishTime w (cd_strategy brief),
             prod_priority = calculatePriority now (cd_strategy brief),
             estimatedDuration = duration (cd_script brief)\<rparr>"
  from assms 1 2 have 3: "db_saveProductionData w = None"
    by (cases "db_saveProductionData w") (simp_all add: processContent_def Let_def)
  from assms 1 2 3 obtain p1 where
    4: "generateAudioNarration w now (generateVideoContent w now p0) = Inr p1"
    by (cases "generateAudioNarration w now (generateVideoContent w now p0)")
       (simp_all add: processContent_def Let_def p0_def)
  from assms 1 2 3 4 obtain p2 where 5: "generateCaptions w now p1 = Inr p2"
    by (cases "generateCaptions w now p1") (simp_all add: processContent_def Let_def p0_def)
  from assms 1 2 3 4 5 obtain p3 where 6: "assembleVideo w p2 = Inr p3"
    by (cases "assembleVideo w p2") (simp_all add: processContent_def Let_def p0_def)
  from assms 1 2 3 4 5 6 have 7: "db_updateProductionData w = None"
    by (cases "db_updateProductionData w") (simp_all add: processContent_def Let_def p0_def)
  from assms 1 2 3 4 5 6 7
  have 8: "item = p3\<lparr>prod_status := ''ready'',
               prod_timeline := (prod_timeline p3)\<lparr>readyForUpload := Some now\<rparr>\<rparr>"
    by (simp add: processContent_def Let_def p0_def)
  have "prod_script p0 = cd_script brief"
    and "prod_timeline p0 =
       \<lparr>created = Some now, scriptReady = Some now, thumbnailReady = Some now,
        audioGenerated = None, videoGenerated = None, captionsGenerated = None,
        readyForUpload = None\<rparr>"
    by (simp_all add: p0_def)
  with that 4 5 6 8 show ?thesis by blast
qed

lemma processContent_timeline:
  assumes "processContent w now brief = Inr item"
  shows "prod_status item = ''ready''"
    and "prod_timeline item =
      \<lparr>created = Some now, scriptReady = Some now, thumbnailReady = Some now,
       audioGenerated = (if fs_readTTS w = None \<and> generateTTSAudio w = None then Some now else None),
       videoGenerated =
         (if isl (collectVisualAssets (generateVisualAssets w)
                    (createVisualPromptsFromScript (cd_script brief)) [])
          then None else Some now),
       captionsGenerated = Some now, readyForUpload = Some now\<rparr>"
proof -
  from assms obtain p0 p1 p2 p3 where
    s: "prod_script p0 = cd_script brief"
    and t0: "prod_timeline p0 =
       \<lparr>created = Some now, scriptReady = Some now, thumbnailReady = Some now,
        audioGenerated = None, videoGenerated = None, captionsGenerated = None,
        readyForUpload = None\<rparr>"
    and a: "generateAudioNarration w now (generateVideoContent w now p0) = Inr p1"
    and c: "generateCaptions w now p1 = Inr p2"
    and v: "assembleVideo w p2 = Inr p3"
    and i: "item = p3\<lparr>prod_status := ''ready'',
               prod_timeline := (prod_timeline p3)\<lparr>readyForUpload := Some now\<rparr>\<rparr>"
    by (rule processContent_stages)
  from i show "prod_status item = ''ready''" by simp
  have "prod_timeline item = (prod_timeline p3)\<lparr>readyForUpload := Some now\<rparr>"
    using i by simp
  also have "prod_timeline p3 = (prod_timeline p1)\<lparr>captionsGenerated := Some now\<rparr>"
    using assembleVideo_timeline [OF v] generateCaptions_timeline [OF c] by simp
  finally show "prod_timeline item =
      \<lparr>created = Some now, scriptReady = Some now, thumbnailReady = Some now,
       audioGenerated = (if fs_readTTS w = None \<and> generateTTSAudio w = None then Some now else None),
       videoGenerated =
         (if isl (collectVisualAssets (generateVisualAssets w)
                    (createVisualPromptsFromScript (cd_script brief)) [])
          then None else Some now),
       captionsGenerated = Some now, readyForUpload = Some now\<rparr>"
    by (simp add: generateAudioNarration_timeline [OF a] generateVideoContent_timeline s t0)
qed


end
